theory Spec2Isabelle
  imports Main
begin

section \<open>JavaScript values\<close>

text \<open>
  The payloads handled by the session engine are typed \<^verbatim>\<open>any\<close> in the source: they are
  whatever \<^verbatim>\<open>JSON.parse\<close> returned, plus \<^verbatim>\<open>undefined\<close> for a property that is not
  there. Numbers are modelled by the integers (counts are all the code computes with);
  a string is its sequence of code units.
\<close>

datatype json =
    JUndefined
  | JNull
  | JBool bool
  | JNum int
  | JStr string
  | JArr "json list"
  | JObj "(string \<times> json) list"

datatype jsError = TypeError string

text \<open>Truthiness, as tested by \<^verbatim>\<open>!x\<close>, \<^verbatim>\<open>x || y\<close> and \<^verbatim>\<open>x && y\<close>.\<close>

fun truthy :: "json \<Rightarrow> bool" where
  "truthy JUndefined = False"
| "truthy JNull = False"
| "truthy (JBool b) = b"
| "truthy (JNum n) = (n \<noteq> 0)"
| "truthy (JStr s) = (s \<noteq> [])"
| "truthy (JArr xs) = True"
| "truthy (JObj kvs) = True"

fun nullish :: "json \<Rightarrow> bool" where
  "nullish JUndefined = True"
| "nullish JNull = True"
| "nullish v = False"

definition orElse :: "json \<Rightarrow> json \<Rightarrow> json" where
  "orElse a b = (if truthy a then a else b)"

text \<open>
  Reading a named property \<^verbatim>\<open>v.k\<close>. The names read this way by the source are fixed
  identifiers (\<^verbatim>\<open>type\<close>, \<^verbatim>\<open>resource\<close>, \<^verbatim>\<open>drifts\<close>, ...), none of them an array index or a
  member of a built-in prototype, so a value that is not an object has none of them (the
  one \<^verbatim>\<open>length\<close> the source reads, of an array, is \<open>arrayLength\<close> below). The association
  list of an object holds every key once, as \<^verbatim>\<open>JSON.parse\<close> builds it. Reading a property
  of \<^verbatim>\<open>undefined\<close> or \<^verbatim>\<open>null\<close> throws.
\<close>

fun field :: "json \<Rightarrow> string \<Rightarrow> json" where
  "field (JObj kvs) k = (case map_of kvs k of None \<Rightarrow> JUndefined | Some v \<Rightarrow> v)"
| "field v k = JUndefined"

definition getProp :: "json \<Rightarrow> string \<Rightarrow> jsError + json" where
  "getProp v k = (if nullish v then Inl (TypeError k) else Inr (field v k))"

text \<open>Decimal rendering of a number, as a template literal or a property key shows it.\<close>

fun natToString :: "nat \<Rightarrow> string" where
  "natToString n =
     (if n < 10 then [''0123456789'' ! n]
      else natToString (n div 10) @ [''0123456789'' ! (n mod 10)])"

definition intToString :: "int \<Rightarrow> string" where
  "intToString i = (if i < 0 then CHR ''-'' # natToString (nat (- i)) else natToString (nat i))"

fun joinComma :: "string list \<Rightarrow> string" where
  "joinComma [] = []"
| "joinComma [s] = s"
| "joinComma (s # t # ss) = s @ CHR '','' # joinComma (t # ss)"

text \<open>
  \<^verbatim>\<open>String(v)\<close>: the conversion behind a computed property key \<^verbatim>\<open>[data.resource]\<close> and
  behind \<^verbatim>\<open>new Error(v)\<close>.
\<close>

fun toStr :: "json \<Rightarrow> string" where
  "toStr JUndefined = ''undefined''"
| "toStr JNull = ''null''"
| "toStr (JBool b) = (if b then ''true'' else ''false'')"
| "toStr (JNum n) = intToString n"
| "toStr (JStr s) = s"
| "toStr (JArr xs) = joinComma (map (\<lambda>x. if nullish x then [] else toStr x) xs)"
| "toStr (JObj kvs) = ''[object Object]''"

text \<open>
  \<^verbatim>\<open>Object.entries(v)\<close> and \<^verbatim>\<open>Object.keys(v)\<close> for a value that is not nullish. The
  association list of an object is its own properties in enumeration order.
\<close>

fun objectEntries :: "json \<Rightarrow> (string \<times> json) list" where
  "objectEntries (JObj kvs) = kvs"
| "objectEntries (JArr xs) = zip (map natToString [0..<length xs]) xs"
| "objectEntries (JStr s) = zip (map natToString [0..<length s]) (map (\<lambda>c. JStr [c]) s)"
| "objectEntries v = []"

definition objectKeys :: "json \<Rightarrow> string list" where
  "objectKeys v = map fst (objectEntries v)"

section \<open>Session data (DriftAssistProvider.tsx)\<close>

record analysisData =
  sessionId :: string
  selectedResources :: "string list"
  stateData :: json
  fileName :: string
  fileKey :: string
  source :: string
  bucketName :: string
  terraformAnalysis :: json
  configurationSummary :: json

text \<open>
  \<^verbatim>\<open>ResourceResult\<close>. A property that an object does not have reads as \<^verbatim>\<open>undefined\<close>,
  so an absent property is the field value \<^term>\<open>JUndefined\<close>.
\<close>

record resourceResult =
  status :: json
  detectionStatus :: json
  reportStatus :: json
  detectionResults :: json
  reportResults :: json

text \<open>
  \<^verbatim>\<open>AnalysisState\<close>: the three named properties (\<open>state_status\<close> is its \<^verbatim>\<open>status\<close>). The
  reducer writes no other key.
\<close>

record analysisState =
  state_status :: json
  session_dir :: json
  resources :: json

text \<open>
  \<^verbatim>\<open>AnalysisSession\<close>. The lifecycle calls build a session as
  \<^verbatim>\<open>{ ...prev[sessionId], isAnalyzing: false }\<close>; when \<^verbatim>\<open>prev[sessionId]\<close> is undefined the
  object has that one property only, so every field can be absent at run time.
\<close>

record analysisSession =
  session_id :: "string option"
  analysisData :: "analysisData option"
  analysisResults :: "analysisState option"
  resourceResults :: "(string \<rightharpoonup> resourceResult) option"
  isAnalyzing :: "bool option"
  analysisComplete :: "bool option"
  hasStarted :: "bool option"
  error :: json
  timestamp :: "nat option"

text \<open>
  The provider's state: \<^verbatim>\<open>sessions\<close>, \<^verbatim>\<open>currentSession\<close> and the ids that have an entry
  in \<^verbatim>\<open>activeStreams.current\<close> (the reader and abort controller are opaque handles). The
  \<^verbatim>\<open>Record\<close>s are maps from the keys an object has of its own to their values. Where the
  source reads a key that the object does not have and only spreads what it finds
  (\<^verbatim>\<open>{ ...prev[sessionId] }\<close>, \<^verbatim>\<open>{ ...resourceResults[data.resource] }\<close>), a member of
  \<^verbatim>\<open>Object.prototype\<close> found instead spreads to nothing, as \<^verbatim>\<open>undefined\<close> does; where it
  tests what it finds (\<open>readSession\<close> below), the member is in the model.
\<close>

record store =
  sessions :: "string \<rightharpoonup> analysisSession"
  currentSession :: "analysisSession option"
  activeStreams :: "string set"

text \<open>Object spread of a value that may be undefined: \<^verbatim>\<open>{ ...x }\<close>.\<close>

definition noResourceResult :: resourceResult where
  "noResourceResult =
     \<lparr>status = JUndefined, detectionStatus = JUndefined, reportStatus = JUndefined,
      detectionResults = JUndefined, reportResults = JUndefined\<rparr>"

definition noAnalysisState :: analysisState where
  "noAnalysisState = \<lparr>state_status = JUndefined, session_dir = JUndefined, resources = JUndefined\<rparr>"

definition noSession :: analysisSession where
  "noSession =
     \<lparr>session_id = None, analysisData = None, analysisResults = None, resourceResults = None,
      isAnalyzing = None, analysisComplete = None, hasStarted = None, error = JUndefined,
      timestamp = None\<rparr>"

definition spreadResult :: "resourceResult option \<Rightarrow> resourceResult" where
  "spreadResult x = (case x of None \<Rightarrow> noResourceResult | Some r \<Rightarrow> r)"

definition spreadState :: "analysisState option \<Rightarrow> analysisState" where
  "spreadState x = (case x of None \<Rightarrow> noAnalysisState | Some a \<Rightarrow> a)"

definition spreadResults :: "(string \<rightharpoonup> resourceResult) option \<Rightarrow> (string \<rightharpoonup> resourceResult)" where
  "spreadResults x = (case x of None \<Rightarrow> Map.empty | Some m \<Rightarrow> m)"

definition spreadSession :: "analysisSession option \<Rightarrow> analysisSession" where
  "spreadSession x = (case x of None \<Rightarrow> noSession | Some s \<Rightarrow> s)"

section \<open>The reducer: handleStreamingUpdate\<close>

text \<open>The body of the \<^verbatim>\<open>forEach\<close> over the batch of a \<^verbatim>\<open>resource_group_update\<close>.\<close>

definition groupEntry :: "json \<Rightarrow> resourceResult" where
  "groupEntry resourceData =
     (let drift_result = field resourceData ''drift_result'';
          report = field resourceData ''report'';
          hasDetectionResults =
            (truthy drift_result \<and>
              (truthy (field drift_result ''drifts'') \<or> field drift_result ''has_drift'' \<noteq> JUndefined));
          hasReport = truthy report;
          isCompleted = (field resourceData ''status'' = JStr ''completed'')
      in \<lparr>status = orElse (field resourceData ''status'') (JStr ''processing''),
          detectionStatus = (if isCompleted \<or> hasDetectionResults then JStr ''complete'' else JStr ''pending''),
          reportStatus = (if isCompleted \<or> hasReport then JStr ''complete'' else JStr ''pending''),
          detectionResults = drift_result,
          reportResults = report\<rparr>)"

fun groupUpdate ::
  "(string \<times> json) list \<Rightarrow> (string \<rightharpoonup> resourceResult) \<Rightarrow> jsError + (string \<rightharpoonup> resourceResult)" where
  "groupUpdate [] updated = Inr updated"
| "groupUpdate ((resourceType, resourceData) # rest) updated =
     (if nullish resourceData then Inl (TypeError ''drift_result'')
      else groupUpdate rest (updated(resourceType \<mapsto> groupEntry resourceData)))"

text \<open>
  The \<^verbatim>\<open>switch (data.type)\<close> on a copy of the session. The second component of the result
  is \<^verbatim>\<open>activeStreams.current\<close>, which two of the cases clean up.
\<close>

definition switchType ::
  "string \<Rightarrow> json \<Rightarrow> json \<Rightarrow> analysisSession \<times> string set \<Rightarrow> jsError + analysisSession \<times> string set" where
  "switchType sid ty data su =
     (let updatedSession = fst su; streams = snd su in
      if ty = JStr ''session_initialized'' then
        Inr (updatedSession\<lparr>analysisResults :=
               Some ((spreadState (analysisResults updatedSession))
                 \<lparr>state_status := JStr ''session_initialized'',
                  session_dir := field data ''session_dir''\<rparr>)\<rparr>, streams)
      else if ty = JStr ''analysis_started'' then
        Inr (updatedSession\<lparr>analysisResults :=
               Some ((spreadState (analysisResults updatedSession))
                 \<lparr>state_status := JStr ''started'',
                  resources := field data ''resources''\<rparr>)\<rparr>, streams)
      else if ty = JStr ''resource_initialized'' then
        Inr (updatedSession\<lparr>resourceResults :=
               Some ((spreadResults (resourceResults updatedSession))
                 (toStr (field data ''resource'') \<mapsto>
                    \<lparr>status = JStr ''initialized'',
                     detectionStatus = orElse (field data ''detectionStatus'') (JStr ''pending''),
                     reportStatus = orElse (field data ''reportStatus'') (JStr ''pending''),
                     detectionResults = JUndefined,
                     reportResults = JUndefined\<rparr>))\<rparr>, streams)
      else if ty = JStr ''resource_group_update'' then
        (if truthy (field data ''data'') \<and> truthy (field (field data ''data'') ''resources'') then
           (let batch = field (field data ''data'') ''resources'' in
            case analysisResults updatedSession of
              None \<Rightarrow> Inl (TypeError ''resources'')
            | Some results \<Rightarrow>
                (case groupUpdate (objectEntries batch) (spreadResults (resourceResults updatedSession)) of
                   Inl e \<Rightarrow> Inl e
                 | Inr updatedResourceResults \<Rightarrow>
                     Inr (updatedSession
                           \<lparr>analysisResults :=
                              Some (results\<lparr>resources :=
                                      (if truthy (resources results) then resources results
                                       else JArr (map JStr (objectKeys batch)))\<rparr>),
                            resourceResults := Some updatedResourceResults\<rparr>, streams)))
         else Inr (updatedSession, streams))
      else if ty = JStr ''detection_complete'' then
        (case resourceResults updatedSession of
           None \<Rightarrow> Inl (TypeError (toStr (field data ''resource'')))
         | Some results \<Rightarrow>
             Inr (updatedSession\<lparr>resourceResults :=
                    Some (results(toStr (field data ''resource'') \<mapsto>
                      (spreadResult (results (toStr (field data ''resource''))))
                        \<lparr>detectionStatus := JStr ''complete'',
                         detectionResults := field data ''results''\<rparr>))\<rparr>, streams))
      else if ty = JStr ''report_complete'' then
        (case resourceResults updatedSession of
           None \<Rightarrow> Inl (TypeError (toStr (field data ''resource'')))
         | Some results \<Rightarrow>
             Inr (updatedSession\<lparr>resourceResults :=
                    Some (results(toStr (field data ''resource'') \<mapsto>
                      (spreadResult (results (toStr (field data ''resource''))))
                        \<lparr>reportStatus := JStr ''complete'',
                         reportResults := field data ''results''\<rparr>))\<rparr>, streams))
      else if ty = JStr ''analysis_complete'' then
        Inr (updatedSession\<lparr>analysisComplete := Some True, isAnalyzing := Some False\<rparr>,
             streams - {sid})
      else if ty = JStr ''error'' then
        Inr (updatedSession\<lparr>error := field data ''error'', isAnalyzing := Some False\<rparr>,
             streams - {sid})
      else Inr (updatedSession, streams))"

text \<open>
  \<^verbatim>\<open>prev[sessionId]\<close> on the plain object \<^verbatim>\<open>prev\<close>. For an id that is not stored the read
  goes on to \<^verbatim>\<open>Object.prototype\<close>: an id that names one of its members finds that member
  (a function; the prototype object itself for \<^verbatim>\<open>__proto__\<close>), which is truthy and whose
  spread \<^verbatim>\<open>{ ...session }\<close> has no property at all.
\<close>

definition objectPrototypeNames :: "string list" where
  "objectPrototypeNames =
     [''constructor'', ''__defineGetter__'', ''__defineSetter__'', ''hasOwnProperty'',
      ''__lookupGetter__'', ''__lookupSetter__'', ''isPrototypeOf'', ''propertyIsEnumerable'',
      ''toString'', ''valueOf'', ''__proto__'', ''toLocaleString'']"

definition readSession :: "store \<Rightarrow> string \<Rightarrow> analysisSession option" where
  "readSession prev sid =
     (case sessions prev sid of
        Some session \<Rightarrow> Some session
      | None \<Rightarrow> if sid \<in> set objectPrototypeNames then Some noSession else None)"

text \<open>
  \<^verbatim>\<open>handleStreamingUpdate(sessionId, data)\<close>: the state updater handed to
  \<^verbatim>\<open>setSessions\<close>, from the previous state to the next one, or the exception it throws.
\<close>

definition handleStreamingUpdate :: "string \<Rightarrow> json \<Rightarrow> store \<Rightarrow> jsError + store" where
  "handleStreamingUpdate sid data prev =
     (case readSession prev sid of
        None \<Rightarrow> Inr prev
      | Some session \<Rightarrow>
          (case getProp data ''type'' of
             Inl e \<Rightarrow> Inl e
           | Inr ty \<Rightarrow>
               (case switchType sid ty data (session, activeStreams prev) of
                  Inl e \<Rightarrow> Inl e
                | Inr (updatedSession, streams) \<Rightarrow>
                    Inr (prev\<lparr>sessions := (sessions prev)(sid \<mapsto> updatedSession),
                              activeStreams := streams\<rparr>))))"

section \<open>The event decoder: the read loop\<close>

text \<open>\<^verbatim>\<open>chunk.split('\n')\<close>: the first argument is the line read so far.\<close>

fun splitFrom :: "string \<Rightarrow> string \<Rightarrow> string list" where
  "splitFrom cur [] = [cur]"
| "splitFrom cur (c # cs) =
     (if c = CHR 0x0A then cur # splitFrom [] cs else splitFrom (cur @ [c]) cs)"

definition splitLines :: "string \<Rightarrow> string list" where
  "splitLines chunk = splitFrom [] chunk"

definition startsWith :: "string \<Rightarrow> string \<Rightarrow> bool" where
  "startsWith line p = (take (length p) line = p)"

text \<open>
  The texts that one chunk hands to \<^verbatim>\<open>JSON.parse\<close>: \<^verbatim>\<open>line.slice(6)\<close> of every line that
  starts with \<^verbatim>\<open>'data: '\<close>.
\<close>

definition framePayloads :: "string \<Rightarrow> string list" where
  "framePayloads chunk =
     map (drop 6) (filter (\<lambda>line. startsWith line ''data: '') (splitLines chunk))"

text \<open>
  \<^verbatim>\<open>JSON.parse\<close> is the platform's; it is a parameter \<open>parse\<close>, with \<^term>\<open>None\<close> for a text
  it throws on (the \<^verbatim>\<open>catch\<close> logs a warning and the loop goes on with the next line).
\<close>

definition decodeChunk :: "(string \<Rightarrow> json option) \<Rightarrow> string \<Rightarrow> json list" where
  "decodeChunk parse chunk = List.map_filter parse (framePayloads chunk)"

text \<open>The records decoded from the chunks that \<^verbatim>\<open>reader.read()\<close> delivers, in order.\<close>

fun decodeStream :: "(string \<Rightarrow> json option) \<Rightarrow> string list \<Rightarrow> json list" where
  "decodeStream parse [] = []"
| "decodeStream parse (chunk # chunks) = decodeChunk parse chunk @ decodeStream parse chunks"

section \<open>Session lifecycle\<close>

definition generateSessionId :: "analysisData \<Rightarrow> nat \<Rightarrow> string" where
  "generateSessionId d now = fileName d @ ''_'' @ sessionId d @ ''_'' @ natToString now"

definition newSession :: "analysisData \<Rightarrow> string \<Rightarrow> nat \<Rightarrow> analysisSession" where
  "newSession d sid now =
     \<lparr>session_id = Some sid, analysisData = Some d, analysisResults = Some noAnalysisState,
      resourceResults = Some Map.empty, isAnalyzing = Some True, analysisComplete = Some False,
      hasStarted = Some True, error = JNull, timestamp = Some now\<rparr>"

text \<open>
  The first part of \<^verbatim>\<open>startAnalysis\<close>, up to \<^verbatim>\<open>setCurrentSession(newSession)\<close>. The clock
  is read twice: \<open>now\<close> for the id and \<open>stamp\<close> for the timestamp.
\<close>

definition createSession :: "analysisData \<Rightarrow> nat \<Rightarrow> nat \<Rightarrow> store \<Rightarrow> store" where
  "createSession d now stamp st =
     (let sid = generateSessionId d now; session = newSession d sid stamp
      in st\<lparr>sessions := (sessions st)(sid \<mapsto> session), currentSession := Some session\<rparr>)"

text \<open>
  What the network gives back. \<open>jsonBody\<close> is the result of \<^verbatim>\<open>response.json()\<close>
  (\<^term>\<open>None\<close> when it rejects); \<open>bodyStream\<close> is \<^term>\<open>None\<close> when \<^verbatim>\<open>response.body\<close> is null,
  and otherwise the chunks the reader delivers, each as the text \<^verbatim>\<open>decoder.decode(value)\<close>
  makes of it, and how the reading ends: with \<^verbatim>\<open>done\<close>, or with a rejection by an
  \<^verbatim>\<open>Error\<close> of the given name and message. A \<^verbatim>\<open>fetch\<close> that rejects does so with an \<^verbatim>\<open>Error\<close>
  of the given message.
\<close>

datatype streamEnd = Done | ReadRejects string string

record response =
  http_status :: nat
  statusText :: string
  jsonBody :: "json option"
  bodyStream :: "(string list \<times> streamEnd) option"

datatype fetchOutcome = FetchRejects string | FetchResolves response

definition ok :: "response \<Rightarrow> bool" where
  "ok r = (200 \<le> http_status r \<and> http_status r \<le> 299)"

text \<open>The \<^verbatim>\<open>setSessions\<close> of the \<^verbatim>\<open>catch\<close> blocks and of \<^verbatim>\<open>setAnalysisError\<close>.\<close>

definition setAnalysisError :: "string \<Rightarrow> string \<Rightarrow> store \<Rightarrow> store" where
  "setAnalysisError sid message st =
     st\<lparr>sessions := (sessions st)(sid \<mapsto>
          (spreadSession (sessions st sid))\<lparr>error := JStr message, isAnalyzing := Some False\<rparr>)\<rparr>"

text \<open>
  The message of the error thrown for a response that is not ok. Reading \<^verbatim>\<open>details\<close> of a
  body that is \<^verbatim>\<open>null\<close> throws a TypeError, whose message is the engine's (V8's wording
  here).
\<close>

definition errorData :: "response \<Rightarrow> json" where
  "errorData r =
     (case jsonBody r of
        Some body \<Rightarrow> body
      | None \<Rightarrow> JObj [(''error'', JStr (''HTTP '' @ natToString (http_status r) @ '': '' @ statusText r))])"

definition failureMessage :: "response \<Rightarrow> string" where
  "failureMessage r =
     (if nullish (errorData r) then ''Cannot read properties of null (reading 'details')''
      else toStr (orElse (field (errorData r) ''details'')
                   (orElse (field (errorData r) ''error'')
                      (JStr (''Analysis failed with status '' @ natToString (http_status r))))))"

text \<open>Applying the decoded records one after the other; an updater that throws ends it.\<close>

fun applyEvents :: "string \<Rightarrow> json list \<Rightarrow> store \<Rightarrow> jsError + store" where
  "applyEvents sid [] st = Inr st"
| "applyEvents sid (data # rest) st =
     (case handleStreamingUpdate sid data st of
        Inl e \<Rightarrow> Inl e
      | Inr st' \<Rightarrow> applyEvents sid rest st')"

definition readStream ::
  "(string \<Rightarrow> json option) \<Rightarrow> string \<Rightarrow> string list \<times> streamEnd \<Rightarrow> store \<Rightarrow> jsError + store" where
  "readStream parse sid body st =
     (case applyEvents sid (decodeStream parse (fst body)) st of
        Inl e \<Rightarrow> Inl e
      | Inr st' \<Rightarrow>
          (let st'' = (case snd body of
                         Done \<Rightarrow> st'
                       | ReadRejects name message \<Rightarrow>
                           if name \<noteq> ''AbortError'' then setAnalysisError sid message st' else st')
           in Inr (st''\<lparr>activeStreams := activeStreams st'' - {sid}\<rparr>)))"

definition startAnalysis ::
  "(string \<Rightarrow> json option) \<Rightarrow> analysisData \<Rightarrow> nat \<Rightarrow> nat \<Rightarrow> fetchOutcome \<Rightarrow> store \<Rightarrow> jsError + store" where
  "startAnalysis parse d now stamp outcome st =
     (let sid = generateSessionId d now; st1 = createSession d now stamp st in
      case outcome of
        FetchRejects message \<Rightarrow> Inr (setAnalysisError sid message st1)
      | FetchResolves r \<Rightarrow>
          if \<not> ok r then Inr (setAnalysisError sid (failureMessage r) st1)
          else (case bodyStream r of
                  None \<Rightarrow> Inr (setAnalysisError sid ''Failed to get response reader'' st1)
                | Some body \<Rightarrow>
                    readStream parse sid body (st1\<lparr>activeStreams := insert sid (activeStreams st1)\<rparr>)))"

definition stopAnalysis :: "string \<Rightarrow> store \<Rightarrow> store" where
  "stopAnalysis sid st =
     st\<lparr>activeStreams := activeStreams st - {sid},
        sessions := (sessions st)(sid \<mapsto> (spreadSession (sessions st sid))\<lparr>isAnalyzing := Some False\<rparr>)\<rparr>"

section \<open>The streaming component (S3StreamingAnalysis.tsx)\<close>

text \<open>
  The component keeps one analysis in its own state, with its own copy of the reducer and
  of the read loop. \<open>analysisStartedRef\<close> is the ref of that name.
\<close>

record componentState =
  c_analysisResults :: analysisState
  c_resourceResults :: "string \<rightharpoonup> resourceResult"
  c_isAnalyzing :: bool
  c_error :: json
  c_analysisComplete :: bool
  c_hasStarted :: bool
  analysisStartedRef :: bool

text \<open>
  The component's \<^verbatim>\<open>handleStreamingUpdate(data)\<close> for a value that is not nullish: the
  state after the updaters it queues have run, or the exception one of them throws.
\<close>

definition handleStreamingUpdateC :: "json \<Rightarrow> componentState \<Rightarrow> jsError + componentState" where
  "handleStreamingUpdateC data prev =
     (let ty = field data ''type'' in
      if ty = JStr ''session_initialized'' then
        Inr (prev\<lparr>c_analysisResults := (c_analysisResults prev)
               \<lparr>state_status := JStr ''session_initialized'',
                session_dir := field data ''session_dir''\<rparr>\<rparr>)
      else if ty = JStr ''analysis_started'' then
        Inr (prev\<lparr>c_analysisResults := (c_analysisResults prev)
               \<lparr>state_status := JStr ''started'', resources := field data ''resources''\<rparr>\<rparr>)
      else if ty = JStr ''resource_initialized'' then
        Inr (prev\<lparr>c_resourceResults := (c_resourceResults prev)
               (toStr (field data ''resource'') \<mapsto>
                  \<lparr>status = JStr ''initialized'',
                   detectionStatus = orElse (field data ''detectionStatus'') (JStr ''pending''),
                   reportStatus = orElse (field data ''reportStatus'') (JStr ''pending''),
                   detectionResults = JUndefined,
                   reportResults = JUndefined\<rparr>)\<rparr>)
      else if ty = JStr ''resource_group_update'' then
        (if truthy (field data ''data'') \<and> truthy (field (field data ''data'') ''resources'') then
           (let batch = field (field data ''data'') ''resources'' in
            case groupUpdate (objectEntries batch) (c_resourceResults prev) of
              Inl e \<Rightarrow> Inl e
            | Inr updated \<Rightarrow>
                Inr (prev\<lparr>c_analysisResults := (c_analysisResults prev)
                            \<lparr>resources :=
                               (if truthy (resources (c_analysisResults prev))
                                then resources (c_analysisResults prev)
                                else JArr (map JStr (objectKeys batch)))\<rparr>,
                          c_resourceResults := updated\<rparr>))
         else Inr prev)
      else if ty = JStr ''detection_complete'' then
        Inr (prev\<lparr>c_resourceResults := (c_resourceResults prev)
               (toStr (field data ''resource'') \<mapsto>
                  (spreadResult (c_resourceResults prev (toStr (field data ''resource''))))
                    \<lparr>detectionStatus := JStr ''complete'',
                     detectionResults := field data ''results''\<rparr>)\<rparr>)
      else if ty = JStr ''report_complete'' then
        Inr (prev\<lparr>c_resourceResults := (c_resourceResults prev)
               (toStr (field data ''resource'') \<mapsto>
                  (spreadResult (c_resourceResults prev (toStr (field data ''resource''))))
                    \<lparr>reportStatus := JStr ''complete'',
                     reportResults := field data ''results''\<rparr>)\<rparr>)
      else if ty = JStr ''analysis_complete'' then Inr (prev\<lparr>c_analysisComplete := True\<rparr>)
      else if ty = JStr ''error'' then Inr (prev\<lparr>c_error := field data ''error''\<rparr>)
      else Inr prev)"

text \<open>
  The loop body: \<^verbatim>\<open>switch (data.type)\<close> on \<^verbatim>\<open>null\<close> throws inside the \<^verbatim>\<open>try\<close>, and the
  \<^verbatim>\<open>catch\<close> logs it and goes on.
\<close>

fun pumpEvents :: "json list \<Rightarrow> componentState \<Rightarrow> jsError + componentState" where
  "pumpEvents [] st = Inr st"
| "pumpEvents (data # rest) st =
     (if nullish data then pumpEvents rest st
      else (case handleStreamingUpdateC data st of
              Inl e \<Rightarrow> Inl e
            | Inr st' \<Rightarrow> pumpEvents rest st'))"

text \<open>The \<^verbatim>\<open>catch\<close> and \<^verbatim>\<open>finally\<close> blocks of the component's \<^verbatim>\<open>startAnalysis\<close>.\<close>

definition catchC :: "string \<Rightarrow> componentState \<Rightarrow> componentState" where
  "catchC message st =
     st\<lparr>c_error := JStr message, c_hasStarted := False, analysisStartedRef := False\<rparr>"

definition finallyC :: "componentState \<Rightarrow> componentState" where
  "finallyC st = st\<lparr>c_isAnalyzing := False\<rparr>"

definition startAnalysisC ::
  "(string \<Rightarrow> json option) \<Rightarrow> analysisData option \<Rightarrow> fetchOutcome \<Rightarrow> componentState
     \<Rightarrow> jsError + componentState" where
  "startAnalysisC parse props outcome st =
     (if props = None \<or> c_isAnalyzing st \<or> c_hasStarted st \<or> analysisStartedRef st then Inr st
      else
        (let st1 = st\<lparr>analysisStartedRef := True, c_hasStarted := True, c_isAnalyzing := True,
                       c_error := JNull, c_analysisResults := noAnalysisState,
                       c_resourceResults := Map.empty, c_analysisComplete := False\<rparr>
         in case outcome of
              FetchRejects message \<Rightarrow> Inr (finallyC (catchC message st1))
            | FetchResolves r \<Rightarrow>
                if \<not> ok r then
                  (if http_status r = 423 then
                     Inr (finallyC (st1\<lparr>c_error := JStr
                       ''Analysis already in progress for this file. Please wait for it to complete.''\<rparr>))
                   else if http_status r = 401 then
                     Inr (finallyC (st1\<lparr>c_error := JStr
                       ''Authentication failed. Your session may have expired. Please reconnect to your cloud environment.''\<rparr>))
                   else if http_status r = 403 then
                     Inr (finallyC (st1\<lparr>c_error := JStr
                       ''Access forbidden. Please check your permissions and try again.''\<rparr>))
                   else Inr (finallyC (catchC (failureMessage r) st1)))
                else
                  (case bodyStream r of
                     None \<Rightarrow> Inr (finallyC (catchC ''Failed to get response reader'' st1))
                   | Some body \<Rightarrow>
                       (case pumpEvents (decodeStream parse (fst body)) st1 of
                          Inl e \<Rightarrow> Inl e
                        | Inr st2 \<Rightarrow>
                            (case snd body of
                               Done \<Rightarrow> Inr (finallyC (st2\<lparr>c_analysisComplete := True\<rparr>))
                             | ReadRejects name message \<Rightarrow> Inr (finallyC (catchC message st2)))))))"

section \<open>View projection\<close>

fun isArray :: "json \<Rightarrow> bool" where
  "isArray (JArr xs) = True"
| "isArray v = False"

fun arrayLength :: "json \<Rightarrow> json" where
  "arrayLength (JArr xs) = JNum (int (length xs))"
| "arrayLength v = JUndefined"

definition getDriftCount :: "resourceResult option \<Rightarrow> json" where
  "getDriftCount results =
     (case results of
        None \<Rightarrow> JNum 0
      | Some r \<Rightarrow>
          if \<not> truthy (detectionResults r) then JNum 0
          else (let detectionData = detectionResults r in
                if field detectionData ''drift_count'' \<noteq> JUndefined
                then field detectionData ''drift_count''
                else if truthy (field detectionData ''drifts'') \<and> isArray (field detectionData ''drifts'')
                then arrayLength (field detectionData ''drifts'')
                else JNum 0))"

section \<open>Vocabulary of the properties\<close>

text \<open>
  \<^verbatim>\<open>sessions[sid]?.resourceResults?.[r]\<close>: the entry of a resource in a session, and the
  same read on the outcome of an updater (nothing when it threw).
\<close>

definition lookupResource :: "string \<Rightarrow> string \<Rightarrow> store \<Rightarrow> resourceResult option" where
  "lookupResource sid r st =
     (case sessions st sid of
        None \<Rightarrow> None
      | Some s \<Rightarrow> (case resourceResults s of None \<Rightarrow> None | Some rr \<Rightarrow> rr r))"

definition resourceAfter :: "string \<Rightarrow> string \<Rightarrow> jsError + store \<Rightarrow> resourceResult option" where
  "resourceAfter sid r outcome = (case outcome of Inl e \<Rightarrow> None | Inr st \<Rightarrow> lookupResource sid r st)"

definition sessionAfter :: "string \<Rightarrow> jsError + store \<Rightarrow> analysisSession option" where
  "sessionAfter sid outcome = (case outcome of Inl e \<Rightarrow> None | Inr st \<Rightarrow> sessions st sid)"

definition resourceAfterC :: "string \<Rightarrow> jsError + componentState \<Rightarrow> resourceResult option" where
  "resourceAfterC r outcome = (case outcome of Inl e \<Rightarrow> None | Inr st \<Rightarrow> c_resourceResults st r)"

definition detectionComplete :: "string \<Rightarrow> string \<Rightarrow> store \<Rightarrow> bool" where
  "detectionComplete sid r st =
     (case lookupResource sid r st of None \<Rightarrow> False | Some e \<Rightarrow> detectionStatus e = JStr ''complete'')"

definition reportComplete :: "string \<Rightarrow> string \<Rightarrow> store \<Rightarrow> bool" where
  "reportComplete sid r st =
     (case lookupResource sid r st of None \<Rightarrow> False | Some e \<Rightarrow> reportStatus e = JStr ''complete'')"

text \<open>The key \<^verbatim>\<open>[data.resource]\<close> an event names, and the batch a group update carries.\<close>

definition eventKey :: "json \<Rightarrow> string" where
  "eventKey data = toStr (field data ''resource'')"

definition batchEntries :: "json \<Rightarrow> (string \<times> json) list" where
  "batchEntries data =
     (if truthy (field data ''data'') \<and> truthy (field (field data ''data'') ''resources'')
      then objectEntries (field (field data ''data'') ''resources'') else [])"

definition knownTypes :: "string list" where
  "knownTypes = [''session_initialized'', ''analysis_started'', ''resource_initialized'',
     ''resource_group_update'', ''detection_complete'', ''report_complete'', ''analysis_complete'',
     ''error'']"

text \<open>
  The events that cannot take the detection status of resource \<open>r\<close> away from
  \<^verbatim>\<open>'complete'\<close>: all of them, except a \<^verbatim>\<open>resource_initialized\<close> for \<open>r\<close> that does not itself
  say \<^verbatim>\<open>'complete'\<close>, and a \<^verbatim>\<open>resource_group_update\<close> whose batch carries \<open>r\<close> neither
  completed nor with a detection result. Likewise for the report status.
\<close>

definition keepsDetection :: "string \<Rightarrow> json \<Rightarrow> bool" where
  "keepsDetection r data =
     ((field data ''type'' = JStr ''resource_initialized'' \<and> eventKey data = r
         \<longrightarrow> field data ''detectionStatus'' = JStr ''complete'')
      \<and> (field data ''type'' = JStr ''resource_group_update''
         \<longrightarrow> list_all (\<lambda>(k, d). k = r \<longrightarrow> detectionStatus (groupEntry d) = JStr ''complete'')
               (batchEntries data)))"

definition keepsReport :: "string \<Rightarrow> json \<Rightarrow> bool" where
  "keepsReport r data =
     ((field data ''type'' = JStr ''resource_initialized'' \<and> eventKey data = r
         \<longrightarrow> field data ''reportStatus'' = JStr ''complete'')
      \<and> (field data ''type'' = JStr ''resource_group_update''
         \<longrightarrow> list_all (\<lambda>(k, d). k = r \<longrightarrow> reportStatus (groupEntry d) = JStr ''complete'')
               (batchEntries data)))"

text \<open>
  The events that replace the whole entry of \<open>r\<close> (a \<^verbatim>\<open>resource_initialized\<close> for \<open>r\<close>, a
  \<^verbatim>\<open>resource_group_update\<close> carrying \<open>r\<close>), and those that store a new detection or report
  result for it.
\<close>

definition replacesEntry :: "string \<Rightarrow> json \<Rightarrow> bool" where
  "replacesEntry r data =
     ((field data ''type'' = JStr ''resource_initialized'' \<and> eventKey data = r)
      \<or> (field data ''type'' = JStr ''resource_group_update'' \<and> r \<in> fst ` set (batchEntries data)))"

definition storesDetection :: "string \<Rightarrow> json \<Rightarrow> bool" where
  "storesDetection r data = (field data ''type'' = JStr ''detection_complete'' \<and> eventKey data = r)"

definition storesReport :: "string \<Rightarrow> json \<Rightarrow> bool" where
  "storesReport r data = (field data ''type'' = JStr ''report_complete'' \<and> eventKey data = r)"

text \<open>A chunk that ends where a line ends.\<close>

definition lineAligned :: "string \<Rightarrow> bool" where
  "lineAligned chunk = (chunk = [] \<or> last chunk = CHR 0x0A)"

section \<open>Sample inputs\<close>

definition sampleData :: analysisData where
  "sampleData =
     \<lparr>sessionId = ''s1'', selectedResources = [''ec2'', ''s3''], stateData = JObj [],
      fileName = ''plan.tfstate'', fileKey = ''states/plan.tfstate'', source = ''s3'',
      bucketName = ''infra'', terraformAnalysis = JUndefined, configurationSummary = JUndefined\<rparr>"

definition sampleStore :: store where
  "sampleStore =
     \<lparr>sessions = [''plan.tfstate_s1_17'' \<mapsto> newSession sampleData ''plan.tfstate_s1_17'' 17],
      currentSession = Some (newSession sampleData ''plan.tfstate_s1_17'' 17),
      activeStreams = {''plan.tfstate_s1_17''}\<rparr>"

definition twoDrifts :: json where
  "twoDrifts = JObj [(''drifts'', JArr [JObj [(''kind'', JStr ''tag'')], JObj [(''kind'', JStr ''size'')]])]"

definition detectionCompleteEvent :: json where
  "detectionCompleteEvent =
     JObj [(''type'', JStr ''detection_complete''), (''resource'', JStr ''ec2''), (''results'', twoDrifts)]"

definition errorEvent :: json where
  "errorEvent = JObj [(''type'', JStr ''error''), (''error'', JStr ''backend failed'')]"

definition completedStore :: store where
  "completedStore =
     \<lparr>sessions = [''plan.tfstate_s1_17'' \<mapsto>
        (newSession sampleData ''plan.tfstate_s1_17'' 17)\<lparr>resourceResults := Some [''ec2'' \<mapsto>
           \<lparr>status = JStr ''completed'', detectionStatus = JStr ''complete'',
            reportStatus = JStr ''complete'', detectionResults = twoDrifts,
            reportResults = JStr ''two tags differ''\<rparr>]\<rparr>],
      currentSession = Some (newSession sampleData ''plan.tfstate_s1_17'' 17),
      activeStreams = {''plan.tfstate_s1_17''}\<rparr>"

definition lateInitEvent :: json where
  "lateInitEvent = JObj [(''type'', JStr ''resource_initialized''), (''resource'', JStr ''ec2'')]"

definition processingUpdateEvent :: json where
  "processingUpdateEvent =
     JObj [(''type'', JStr ''resource_group_update''),
           (''data'', JObj [(''resources'', JObj [(''ec2'', JObj [(''status'', JStr ''processing'')])])])]"

definition reportCompleteEvent :: json where
  "reportCompleteEvent =
     JObj [(''type'', JStr ''report_complete''), (''resource'', JStr ''ec2''),
           (''results'', JStr ''one tag differs'')]"

definition countOnlyEntry :: json where
  "countOnlyEntry =
     JObj [(''status'', JStr ''processing''), (''drift_result'', JObj [(''drift_count'', JNum 3)])]"

definition otherResourceTrace :: "json list" where
  "otherResourceTrace =
     [JObj [(''type'', JStr ''resource_initialized''), (''resource'', JStr ''s3'')],
      JObj [(''type'', JStr ''resource_group_update''),
            (''data'', JObj [(''resources'', JObj [(''s3'', JObj [(''status'', JStr ''processing'')])])])],
      JObj [(''type'', JStr ''detection_complete''), (''resource'', JStr ''s3''),
            (''results'', JObj [(''drifts'', JArr [])])],
      JObj [(''type'', JStr ''analysis_complete'')]]"

text \<open>
  The text of one event record, \<^verbatim>\<open>{"type":"analysis_complete"}\<close>, and a stand-in for
  \<^verbatim>\<open>JSON.parse\<close> on the texts of the examples: it parses that text to the record and
  rejects every other text (among them the text cut short, an unterminated string literal
  that \<^verbatim>\<open>JSON.parse\<close> rejects too).
\<close>

definition quoted :: "string \<Rightarrow> string" where
  "quoted s = CHR 0x22 # s @ [CHR 0x22]"

definition completeText :: string where
  "completeText = ''{'' @ quoted ''type'' @ '':'' @ quoted ''analysis_complete'' @ ''}''"

definition sampleParse :: "string \<Rightarrow> json option" where
  "sampleParse text =
     (if text = completeText then Some (JObj [(''type'', JStr ''analysis_complete'')]) else None)"

definition emptyStore :: store where
  "emptyStore = \<lparr>sessions = Map.empty, currentSession = None, activeStreams = {}\<rparr>"

definition lockedResponse :: response where
  "lockedResponse = \<lparr>http_status = 423, statusText = ''Locked'', jsonBody = Some (JObj []), bodyStream = None\<rparr>"

definition unauthorizedResponse :: response where
  "unauthorizedResponse =
     \<lparr>http_status = 401, statusText = ''Unauthorized'', jsonBody = None, bodyStream = None\<rparr>"

definition streamingResponse :: response where
  "streamingResponse =
     \<lparr>http_status = 200, statusText = ''OK'', jsonBody = None,
      bodyStream = Some ([''data: '' @ completeText @ [CHR 0x0A]], Done)\<rparr>"

definition mountedComponent :: componentState where
  "mountedComponent =
     \<lparr>c_analysisResults = noAnalysisState, c_resourceResults = Map.empty, c_isAnalyzing = False,
      c_error = JNull, c_analysisComplete = False, c_hasStarted = False, analysisStartedRef = False\<rparr>"

definition miscountedResult :: resourceResult where
  "miscountedResult =
     \<lparr>status = JStr ''completed'', detectionStatus = JStr ''complete'', reportStatus = JStr ''complete'',
      detectionResults = JObj [(''drift_count'', JNum 5), (''drifts'', JArr [JObj [(''kind'', JStr ''tag'')]])],
      reportResults = JUndefined\<rparr>"

definition flagOnlyResult :: resourceResult where
  "flagOnlyResult =
     \<lparr>status = JStr ''completed'', detectionStatus = JStr ''complete'', reportStatus = JStr ''complete'',
      detectionResults = JObj [(''has_drift'', JBool False)], reportResults = JUndefined\<rparr>"

definition miscountedUpdateEvent :: json where
  "miscountedUpdateEvent =
     JObj [(''type'', JStr ''resource_group_update''),
           (''data'', JObj [(''resources'', JObj [(''ec2'',
              JObj [(''status'', JStr ''completed''),
                    (''drift_result'', JObj [(''drift_count'', JNum 5),
                       (''drifts'', JArr [JObj [(''kind'', JStr ''tag'')]])])])])])]"

section \<open>Basic facts\<close>

declare natToString.simps [simp del]

lemmas handler_defs = handleStreamingUpdate_def readSession_def switchType_def getProp_def orElse_def
  groupEntry_def spreadResults_def spreadResult_def spreadState_def noResourceResult_def

lemma spreadResult_Some [simp]: "spreadResult (Some e) = e"
  by (simp add: spreadResult_def)

lemma spreadResults_Some [simp]: "spreadResults (Some rr) = rr"
  by (simp add: spreadResults_def)

lemma field_defined_not_nullish: "field v k \<noteq> JUndefined \<Longrightarrow> \<not> nullish v"
  by (cases v) simp_all

lemma getProp_type: "field data ''type'' = JStr t \<Longrightarrow> getProp data ''type'' = Inr (JStr t)"
  using field_defined_not_nullish [of data "''type''"] by (simp add: getProp_def)

lemma handle_session_initialized:
  "sessions st sid = Some s \<Longrightarrow> field data ''type'' = JStr ''session_initialized'' \<Longrightarrow>
   handleStreamingUpdate sid data st =
     Inr (st\<lparr>sessions := (sessions st)(sid \<mapsto> s\<lparr>analysisResults :=
            Some ((spreadState (analysisResults s))
              \<lparr>state_status := JStr ''session_initialized'', session_dir := field data ''session_dir''\<rparr>)\<rparr>)\<rparr>)"
  by (simp add: handleStreamingUpdate_def readSession_def getProp_type switchType_def)

lemma handle_analysis_started:
  "sessions st sid = Some s \<Longrightarrow> field data ''type'' = JStr ''analysis_started'' \<Longrightarrow>
   handleStreamingUpdate sid data st =
     Inr (st\<lparr>sessions := (sessions st)(sid \<mapsto> s\<lparr>analysisResults :=
            Some ((spreadState (analysisResults s))
              \<lparr>state_status := JStr ''started'', resources := field data ''resources''\<rparr>)\<rparr>)\<rparr>)"
  by (simp add: handleStreamingUpdate_def readSession_def getProp_type switchType_def)

lemma handle_resource_initialized:
  "sessions st sid = Some s \<Longrightarrow> field data ''type'' = JStr ''resource_initialized'' \<Longrightarrow>
   handleStreamingUpdate sid data st =
     Inr (st\<lparr>sessions := (sessions st)(sid \<mapsto> s\<lparr>resourceResults :=
            Some ((spreadResults (resourceResults s))(eventKey data \<mapsto>
              \<lparr>status = JStr ''initialized'',
               detectionStatus = orElse (field data ''detectionStatus'') (JStr ''pending''),
               reportStatus = orElse (field data ''reportStatus'') (JStr ''pending''),
               detectionResults = JUndefined, reportResults = JUndefined\<rparr>))\<rparr>)\<rparr>)"
  by (simp add: handleStreamingUpdate_def readSession_def getProp_type switchType_def eventKey_def)

lemma handle_group_update:
  "sessions st sid = Some s \<Longrightarrow> field data ''type'' = JStr ''resource_group_update'' \<Longrightarrow>
   handleStreamingUpdate sid data st =
     (if truthy (field data ''data'') \<and> truthy (field (field data ''data'') ''resources'') then
        (case analysisResults s of
           None \<Rightarrow> Inl (TypeError ''resources'')
         | Some results \<Rightarrow>
             (case groupUpdate (batchEntries data) (spreadResults (resourceResults s)) of
                Inl e \<Rightarrow> Inl e
              | Inr updated \<Rightarrow>
                  Inr (st\<lparr>sessions := (sessions st)(sid \<mapsto> s
                         \<lparr>analysisResults :=
                            Some (results\<lparr>resources :=
                              (if truthy (resources results) then resources results
                               else JArr (map JStr (objectKeys (field (field data ''data'') ''resources''))))\<rparr>),
                          resourceResults := Some updated\<rparr>)\<rparr>)))
      else Inr st)"
proof -
  assume s: "sessions st sid = Some s" and ty: "field data ''type'' = JStr ''resource_group_update''"
  have triv: "(sessions st)(sid \<mapsto> s) = sessions st" using s by (simp add: map_upd_triv)
  show ?thesis
  proof (cases "truthy (field data ''data'') \<and> truthy (field (field data ''data'') ''resources'')")
    case True
    then show ?thesis using s ty
      by (simp add: handleStreamingUpdate_def readSession_def getProp_type switchType_def batchEntries_def
            split: option.splits sum.splits)
  next
    case False
    then show ?thesis using s ty triv
      by (auto simp add: handleStreamingUpdate_def readSession_def getProp_type switchType_def Let_def)
  qed
qed

lemma handle_detection_complete:
  "sessions st sid = Some s \<Longrightarrow> field data ''type'' = JStr ''detection_complete'' \<Longrightarrow>
   handleStreamingUpdate sid data st =
     (case resourceResults s of
        None \<Rightarrow> Inl (TypeError (eventKey data))
      | Some rr \<Rightarrow>
          Inr (st\<lparr>sessions := (sessions st)(sid \<mapsto> s\<lparr>resourceResults :=
                 Some (rr(eventKey data \<mapsto> (spreadResult (rr (eventKey data)))
                   \<lparr>detectionStatus := JStr ''complete'', detectionResults := field data ''results''\<rparr>))\<rparr>)\<rparr>))"
  by (simp add: handleStreamingUpdate_def readSession_def getProp_type switchType_def eventKey_def split: option.splits)

lemma handle_report_complete:
  "sessions st sid = Some s \<Longrightarrow> field data ''type'' = JStr ''report_complete'' \<Longrightarrow>
   handleStreamingUpdate sid data st =
     (case resourceResults s of
        None \<Rightarrow> Inl (TypeError (eventKey data))
      | Some rr \<Rightarrow>
          Inr (st\<lparr>sessions := (sessions st)(sid \<mapsto> s\<lparr>resourceResults :=
                 Some (rr(eventKey data \<mapsto> (spreadResult (rr (eventKey data)))
                   \<lparr>reportStatus := JStr ''complete'', reportResults := field data ''results''\<rparr>))\<rparr>)\<rparr>))"
  by (simp add: handleStreamingUpdate_def readSession_def getProp_type switchType_def eventKey_def split: option.splits)

lemma handle_analysis_complete:
  "sessions st sid = Some s \<Longrightarrow> field data ''type'' = JStr ''analysis_complete'' \<Longrightarrow>
   handleStreamingUpdate sid data st =
     Inr (st\<lparr>sessions := (sessions st)(sid \<mapsto> s\<lparr>analysisComplete := Some True, isAnalyzing := Some False\<rparr>),
             activeStreams := activeStreams st - {sid}\<rparr>)"
  by (simp add: handleStreamingUpdate_def readSession_def getProp_type switchType_def)

lemma handle_error:
  "sessions st sid = Some s \<Longrightarrow> field data ''type'' = JStr ''error'' \<Longrightarrow>
   handleStreamingUpdate sid data st =
     Inr (st\<lparr>sessions := (sessions st)(sid \<mapsto> s\<lparr>error := field data ''error'', isAnalyzing := Some False\<rparr>),
             activeStreams := activeStreams st - {sid}\<rparr>)"
  by (simp add: handleStreamingUpdate_def readSession_def getProp_type switchType_def)

lemma handle_unknown:
  "sessions st sid = Some s \<Longrightarrow> \<not> nullish data \<Longrightarrow> field data ''type'' \<notin> JStr ` set knownTypes \<Longrightarrow>
   handleStreamingUpdate sid data st = Inr st"
proof -
  assume s: "sessions st sid = Some s" and n: "\<not> nullish data"
    and u: "field data ''type'' \<notin> JStr ` set knownTypes"
  have "(sessions st)(sid \<mapsto> s) = sessions st" using s by (simp add: map_upd_triv)
  then show ?thesis using s n u
    by (simp add: handleStreamingUpdate_def readSession_def getProp_def switchType_def knownTypes_def)
qed

lemma handle_nullish:
  "sessions st sid = Some s \<Longrightarrow> nullish data \<Longrightarrow>
   handleStreamingUpdate sid data st = Inl (TypeError ''type'')"
  by (simp add: handleStreamingUpdate_def readSession_def getProp_def)

lemma event_cases:
  obtains (nullish) "nullish data"
  | (session_initialized) "field data ''type'' = JStr ''session_initialized''"
  | (analysis_started) "field data ''type'' = JStr ''analysis_started''"
  | (resource_initialized) "field data ''type'' = JStr ''resource_initialized''"
  | (resource_group_update) "field data ''type'' = JStr ''resource_group_update''"
  | (detection_complete) "field data ''type'' = JStr ''detection_complete''"
  | (report_complete) "field data ''type'' = JStr ''report_complete''"
  | (analysis_complete) "field data ''type'' = JStr ''analysis_complete''"
  | (error) "field data ''type'' = JStr ''error''"
  | (unknown) "\<not> nullish data" "field data ''type'' \<notin> JStr ` set knownTypes"
  by (auto simp: knownTypes_def)

lemma groupUpdate_lookup:
  "groupUpdate es rr = Inr rr' \<Longrightarrow>
   rr' r = rr r \<or> (\<exists>d. (r, d) \<in> set es \<and> rr' r = Some (groupEntry d))"
proof (induction es arbitrary: rr)
  case Nil
  then show ?case by simp
next
  case (Cons a es)
  obtain k d where a: "a = (k, d)" by (cases a)
  from Cons.prems a have rest: "groupUpdate es (rr(k \<mapsto> groupEntry d)) = Inr rr'"
    by (auto split: if_splits)
  from Cons.IH [OF rest] show ?case using a by (auto split: if_splits)
qed

lemma handle_unstored:
  "sessions st sid = None \<Longrightarrow> sid \<notin> set objectPrototypeNames \<Longrightarrow>
   handleStreamingUpdate sid data st = Inr st"
  by (simp add: handleStreamingUpdate_def readSession_def)

lemma handle_prototype_detection:
  "sessions st sid = None \<Longrightarrow> sid \<in> set objectPrototypeNames \<Longrightarrow>
   field data ''type'' = JStr ''detection_complete'' \<Longrightarrow>
   handleStreamingUpdate sid data st = Inl (TypeError (eventKey data))"
  by (simp add: handleStreamingUpdate_def readSession_def getProp_type switchType_def noSession_def
        eventKey_def)

lemma groupUpdate_carried:
  "groupUpdate es rr = Inr rr' \<Longrightarrow> r \<in> fst ` set es \<Longrightarrow>
   \<exists>d. (r, d) \<in> set es \<and> rr' r = Some (groupEntry d)"
proof (induction es arbitrary: rr)
  case Nil
  then show ?case by simp
next
  case (Cons a es)
  obtain k d where a: "a = (k, d)" by (cases a)
  from Cons.prems(1) a have rest: "groupUpdate es (rr(k \<mapsto> groupEntry d)) = Inr rr'"
    by (auto split: if_splits)
  show ?case
  proof (cases "r \<in> fst ` set es")
    case True
    from Cons.IH [OF rest True] show ?thesis by auto
  next
    case False
    with Cons.prems(2) a have k: "k = r" by auto
    from groupUpdate_lookup [OF rest, of r] False have "rr' r = (rr(k \<mapsto> groupEntry d)) r"
      by force
    with k a show ?thesis by auto
  qed
qed

lemma step_entry:
  assumes h: "handleStreamingUpdate sid data st = Inr st'"
    and e: "lookupResource sid r st = Some e"
  shows "\<exists>e'. lookupResource sid r st' = Some e' \<and>
     (e' = e
      \<or> (field data ''type'' = JStr ''resource_initialized'' \<and> eventKey data = r \<and>
          e' = \<lparr>status = JStr ''initialized'',
                detectionStatus = orElse (field data ''detectionStatus'') (JStr ''pending''),
                reportStatus = orElse (field data ''reportStatus'') (JStr ''pending''),
                detectionResults = JUndefined, reportResults = JUndefined\<rparr>)
      \<or> (field data ''type'' = JStr ''resource_group_update'' \<and>
          (\<exists>d. (r, d) \<in> set (batchEntries data) \<and> e' = groupEntry d))
      \<or> (field data ''type'' = JStr ''detection_complete'' \<and> eventKey data = r \<and>
          e' = e\<lparr>detectionStatus := JStr ''complete'', detectionResults := field data ''results''\<rparr>)
      \<or> (field data ''type'' = JStr ''report_complete'' \<and> eventKey data = r \<and>
          e' = e\<lparr>reportStatus := JStr ''complete'', reportResults := field data ''results''\<rparr>))"
proof -
  from e obtain s rr where s: "sessions st sid = Some s" and rr: "resourceResults s = Some rr"
    and rre: "rr r = Some e"
    by (auto simp: lookupResource_def split: option.splits)
  show ?thesis
  proof (cases data rule: event_cases)
    case nullish
    with h s show ?thesis by (simp add: handle_nullish)
  next
    case session_initialized
    with h s rr rre show ?thesis
      by (auto simp: handle_session_initialized lookupResource_def)
  next
    case analysis_started
    with h s rr rre show ?thesis
      by (auto simp: handle_analysis_started lookupResource_def)
  next
    case resource_initialized
    with h s rr rre show ?thesis
      by (auto simp: handle_resource_initialized lookupResource_def)
  next
    case resource_group_update
    show ?thesis
    proof (cases "truthy (field data ''data'') \<and> truthy (field (field data ''data'') ''resources'')")
      case True
      with h s rr resource_group_update obtain results updated where
        g: "groupUpdate (batchEntries data) rr = Inr updated"
        and st': "st' = st\<lparr>sessions := (sessions st)(sid \<mapsto> s
                         \<lparr>analysisResults :=
                            Some (results\<lparr>resources :=
                              (if truthy (resources results) then resources results
                               else JArr (map JStr (objectKeys (field (field data ''data'') ''resources''))))\<rparr>),
                          resourceResults := Some updated\<rparr>)\<rparr>"
        by (auto simp: handle_group_update split: option.splits sum.splits)
      from groupUpdate_lookup [OF g, of r] rre st' resource_group_update show ?thesis
        by (auto simp: lookupResource_def)
    next
      case False
      with h s resource_group_update have "st' = st" by (auto simp: handle_group_update)
      with e show ?thesis by simp
    qed
  next
    case detection_complete
    with h s rr rre show ?thesis
      by (auto simp: handle_detection_complete lookupResource_def)
  next
    case report_complete
    with h s rr rre show ?thesis
      by (auto simp: handle_report_complete lookupResource_def)
  next
    case analysis_complete
    with h s rr rre show ?thesis
      by (auto simp: handle_analysis_complete lookupResource_def)
  next
    case error
    with h s rr rre show ?thesis
      by (auto simp: handle_error lookupResource_def)
  next
    case unknown
    with h s e show ?thesis by (simp add: handle_unknown)
  qed
qed

lemma step_keeps_detection:
  assumes "handleStreamingUpdate sid data st = Inr st'"
    and "detectionComplete sid r st" and "keepsDetection r data"
  shows "detectionComplete sid r st'"
proof -
  from assms(2) obtain e where e: "lookupResource sid r st = Some e"
    and c: "detectionStatus e = JStr ''complete''"
    by (auto simp: detectionComplete_def split: option.splits)
  from step_entry [OF assms(1) e] c assms(3) show ?thesis
    by (auto simp: detectionComplete_def keepsDetection_def orElse_def list_all_iff)
qed

lemma trace_keeps_detection:
  "applyEvents sid evs st = Inr st' \<Longrightarrow> detectionComplete sid r st \<Longrightarrow>
   list_all (keepsDetection r) evs \<Longrightarrow> detectionComplete sid r st'"
proof (induction evs arbitrary: st)
  case Nil
  then show ?case by simp
next
  case (Cons data evs)
  from Cons.prems(1) obtain st1 where h: "handleStreamingUpdate sid data st = Inr st1"
    and rest: "applyEvents sid evs st1 = Inr st'"
    by (auto split: sum.splits)
  from step_keeps_detection [OF h Cons.prems(2)] Cons.prems(3)
  have "detectionComplete sid r st1" by simp
  with Cons.IH [OF rest] Cons.prems(3) show ?case by simp
qed

lemma step_keeps_report:
  assumes "handleStreamingUpdate sid data st = Inr st'"
    and "reportComplete sid r st" and "keepsReport r data"
  shows "reportComplete sid r st'"
proof -
  from assms(2) obtain e where e: "lookupResource sid r st = Some e"
    and c: "reportStatus e = JStr ''complete''"
    by (auto simp: reportComplete_def split: option.splits)
  from step_entry [OF assms(1) e] c assms(3) show ?thesis
    by (auto simp: reportComplete_def keepsReport_def orElse_def list_all_iff)
qed

lemma trace_keeps_report:
  "applyEvents sid evs st = Inr st' \<Longrightarrow> reportComplete sid r st \<Longrightarrow>
   list_all (keepsReport r) evs \<Longrightarrow> reportComplete sid r st'"
proof (induction evs arbitrary: st)
  case Nil
  then show ?case by simp
next
  case (Cons data evs)
  from Cons.prems(1) obtain st1 where h: "handleStreamingUpdate sid data st = Inr st1"
    and rest: "applyEvents sid evs st1 = Inr st'"
    by (auto split: sum.splits)
  from step_keeps_report [OF h Cons.prems(2)] Cons.prems(3)
  have "reportComplete sid r st1" by simp
  with Cons.IH [OF rest] Cons.prems(3) show ?case by simp
qed

lemma step_keeps_results:
  assumes "handleStreamingUpdate sid data st = Inr st'"
    and "lookupResource sid r st = Some e" and "\<not> replacesEntry r data"
  shows "\<exists>e'. lookupResource sid r st' = Some e'
           \<and> (\<not> storesDetection r data \<longrightarrow> detectionResults e' = detectionResults e)
           \<and> (\<not> storesReport r data \<longrightarrow> reportResults e' = reportResults e)"
  using step_entry [OF assms(1,2)] assms(3)
  by (auto simp: replacesEntry_def storesDetection_def storesReport_def image_iff)

lemma trace_keeps_results:
  "applyEvents sid evs st = Inr st' \<Longrightarrow> lookupResource sid r st = Some e \<Longrightarrow>
   list_all (\<lambda>data. \<not> replacesEntry r data) evs \<Longrightarrow>
   \<exists>e'. lookupResource sid r st' = Some e'
      \<and> (list_all (\<lambda>data. \<not> storesDetection r data) evs \<longrightarrow> detectionResults e' = detectionResults e)
      \<and> (list_all (\<lambda>data. \<not> storesReport r data) evs \<longrightarrow> reportResults e' = reportResults e)"
proof (induction evs arbitrary: st e)
  case Nil
  then show ?case by simp
next
  case (Cons data evs)
  from Cons.prems(1) obtain st1 where h: "handleStreamingUpdate sid data st = Inr st1"
    and rest: "applyEvents sid evs st1 = Inr st'"
    by (auto split: sum.splits)
  from Cons.prems(3) have nr: "\<not> replacesEntry r data"
    and nrs: "list_all (\<lambda>data. \<not> replacesEntry r data) evs" by simp_all
  from step_keeps_results [OF h Cons.prems(2) nr] obtain e1 where
    e1: "lookupResource sid r st1 = Some e1"
    and d1: "\<not> storesDetection r data \<longrightarrow> detectionResults e1 = detectionResults e"
    and r1: "\<not> storesReport r data \<longrightarrow> reportResults e1 = reportResults e"
    by blast
  from Cons.IH [OF rest e1 nrs] d1 r1 show ?case by auto
qed

lemma spreadSession_Some [simp]: "spreadSession (Some s) = s"
  by (simp add: spreadSession_def)

lemma stopAnalysis_existing:
  "sessions st sid = Some s \<Longrightarrow>
   stopAnalysis sid st =
     st\<lparr>activeStreams := activeStreams st - {sid},
        sessions := (sessions st)(sid \<mapsto> s\<lparr>isAnalyzing := Some False\<rparr>)\<rparr>"
  by (simp add: stopAnalysis_def)

lemma isAnalyzing_update_last:
  "analysisResults_update f1 (isAnalyzing_update g s) = isAnalyzing_update g (analysisResults_update f1 s)"
  "resourceResults_update f2 (isAnalyzing_update g s) = isAnalyzing_update g (resourceResults_update f2 s)"
  "analysisComplete_update f3 (isAnalyzing_update g s) = isAnalyzing_update g (analysisComplete_update f3 s)"
  "error_update f4 (isAnalyzing_update g s) = isAnalyzing_update g (error_update f4 s)"
  by (cases s; simp)+

lemma stop_commutes:
  assumes s: "sessions st sid = Some s"
  shows "handleStreamingUpdate sid data (stopAnalysis sid st) =
           map_sum id (stopAnalysis sid) (handleStreamingUpdate sid data st)"
proof -
  let ?st0 = "stopAnalysis sid st"
  have s0: "sessions ?st0 sid = Some (s\<lparr>isAnalyzing := Some False\<rparr>)"
    using s by (simp add: stopAnalysis_existing)
  show ?thesis
  proof (cases data rule: event_cases)
    case nullish
    then show ?thesis using s s0 by (simp add: handle_nullish)
  next
    case session_initialized
    then show ?thesis
      by (simp add: handle_session_initialized [OF s] handle_session_initialized [OF s0])
         (simp add: stopAnalysis_def s isAnalyzing_update_last)
  next
    case analysis_started
    then show ?thesis
      by (simp add: handle_analysis_started [OF s] handle_analysis_started [OF s0])
         (simp add: stopAnalysis_def s isAnalyzing_update_last)
  next
    case resource_initialized
    then show ?thesis
      by (simp add: handle_resource_initialized [OF s] handle_resource_initialized [OF s0])
         (simp add: stopAnalysis_def s isAnalyzing_update_last)
  next
    case resource_group_update
    then show ?thesis
      by (simp add: handle_group_update [OF s] handle_group_update [OF s0]
            split: option.splits sum.splits)
         (simp add: stopAnalysis_def s isAnalyzing_update_last)
  next
    case detection_complete
    then show ?thesis
      by (simp add: handle_detection_complete [OF s] handle_detection_complete [OF s0]
            split: option.splits)
         (simp add: stopAnalysis_def s isAnalyzing_update_last)
  next
    case report_complete
    then show ?thesis
      by (simp add: handle_report_complete [OF s] handle_report_complete [OF s0]
            split: option.splits)
         (simp add: stopAnalysis_def s isAnalyzing_update_last)
  next
    case analysis_complete
    then show ?thesis
      by (simp add: handle_analysis_complete [OF s] handle_analysis_complete [OF s0])
         (simp add: stopAnalysis_def s isAnalyzing_update_last)
  next
    case error
    then show ?thesis
      by (simp add: handle_error [OF s] handle_error [OF s0])
         (simp add: stopAnalysis_def s isAnalyzing_update_last)
  next
    case unknown
    then show ?thesis
      by (simp add: handle_unknown [OF s] handle_unknown [OF s0])
  qed
qed

lemma splitFrom_newline:
  "splitFrom cur (a @ CHR 0x0A # b) = splitFrom cur a @ splitFrom [] b"
  by (induction a arbitrary: cur) simp_all

lemma framePayloads_empty: "framePayloads [] = []"
  by (simp add: framePayloads_def splitLines_def startsWith_def)

lemma framePayloads_newline:
  "framePayloads (a @ CHR 0x0A # b) = framePayloads a @ framePayloads b"
  by (simp add: framePayloads_def splitLines_def splitFrom_newline)

lemma framePayloads_aligned:
  assumes "lineAligned c"
  shows "framePayloads (c @ b) = framePayloads c @ framePayloads b"
proof (cases "c = []")
  case True
  then show ?thesis by (simp add: framePayloads_empty)
next
  case False
  with assms obtain a where c: "c = a @ [CHR 0x0A]"
    by (metis lineAligned_def append_butlast_last_id)
  have "framePayloads (a @ [CHR 0x0A]) = framePayloads a"
    using framePayloads_newline [of a "[]"] by (simp add: framePayloads_empty)
  with c show ?thesis using framePayloads_newline [of a b] by simp
qed

lemma decodeChunk_aligned:
  "lineAligned c \<Longrightarrow> decodeChunk parse (c @ b) = decodeChunk parse c @ decodeChunk parse b"
  by (simp add: decodeChunk_def framePayloads_aligned map_filter_def)

lemma field_defined_truthy: "field v k \<noteq> JUndefined \<Longrightarrow> truthy v"
  by (cases v) simp_all

lemma natToString_small: "n < 10 \<Longrightarrow> natToString n = [''0123456789'' ! n]"
  by (subst natToString.simps) simp

lemma natToString_large:
  "\<not> n < 10 \<Longrightarrow> natToString n = natToString (n div 10) @ [''0123456789'' ! (n mod 10)]"
  by (subst natToString.simps) simp

lemma natToString_nonempty: "natToString n \<noteq> []"
  by (cases "n < 10") (simp_all add: natToString_small natToString_large)

lemma digit_char_inj:
  "i < 10 \<Longrightarrow> j < 10 \<Longrightarrow> ''0123456789'' ! i = ''0123456789'' ! j \<Longrightarrow> i = j"
proof -
  have "distinct ''0123456789''" by simp
  moreover have "length ''0123456789'' = 10" by simp
  ultimately show "i < 10 \<Longrightarrow> j < 10 \<Longrightarrow> ''0123456789'' ! i = ''0123456789'' ! j \<Longrightarrow> i = j"
    by (metis nth_eq_iff_index_eq)
qed

lemma natToString_digits: "set (natToString n) \<subseteq> set ''0123456789''"
proof (induction n rule: natToString.induct)
  case (1 n)
  show ?case
  proof (cases "n < 10")
    case True
    have "''0123456789'' ! n \<in> set ''0123456789''"
      using True by (intro nth_mem) simp
    with True show ?thesis by (simp add: natToString_small)
  next
    case False
    have "''0123456789'' ! (n mod 10) \<in> set ''0123456789''"
      by (intro nth_mem) simp
    with False "1.IH" show ?thesis by (simp add: natToString_large)
  qed
qed

lemma natToString_no_underscore: "CHR ''_'' \<notin> set (natToString n)"
  using natToString_digits [of n] by auto

lemma natToString_inj: "natToString n = natToString m \<Longrightarrow> n = m"
proof (induction n arbitrary: m rule: natToString.induct)
  case (1 n)
  show ?case
  proof (cases "n < 10")
    case n: True
    show ?thesis
    proof (cases "m < 10")
      case True
      with n "1.prems" show ?thesis
        by (simp add: natToString_small digit_char_inj)
    next
      case False
      with n "1.prems" natToString_nonempty [of "m div 10"] show ?thesis
        by (simp add: natToString_small natToString_large)
    qed
  next
    case n: False
    show ?thesis
    proof (cases "m < 10")
      case True
      with n "1.prems" natToString_nonempty [of "n div 10"] show ?thesis
        by (simp add: natToString_small natToString_large)
    next
      case False
      with n "1.prems" have q: "natToString (n div 10) = natToString (m div 10)"
        and d: "''0123456789'' ! (n mod 10) = ''0123456789'' ! (m mod 10)"
        by (simp_all add: natToString_large)
      from "1.IH" [OF n q] have "n div 10 = m div 10" .
      moreover from d have "n mod 10 = m mod 10" by (intro digit_char_inj) simp_all
      ultimately show ?thesis by (metis div_mult_mod_eq)
    qed
  qed
qed

lemma suffix_after_last:
  assumes "c \<notin> set ys" and "c \<notin> set zs" and "xs @ c # ys = ws @ c # zs"
  shows "ys = zs"
proof -
  have "takeWhile (\<lambda>x. x \<noteq> c) (rev (us @ c # vs)) = rev vs" if "c \<notin> set vs" for us vs
  proof -
    have "takeWhile (\<lambda>x. x \<noteq> c) (rev vs @ c # rev us)
            = rev vs @ takeWhile (\<lambda>x. x \<noteq> c) (c # rev us)"
      using that by (intro takeWhile_append2) auto
    then show ?thesis by simp
  qed
  from this [OF assms(1), of xs] this [OF assms(2), of ws] assms(3)
  have "rev ys = rev zs" by simp
  then show ?thesis by simp
qed

lemma generateSessionId_instant:
  assumes "generateSessionId d now = generateSessionId d' now'"
  shows "now = now'"
proof -
  from assms have "(fileName d @ ''_'' @ sessionId d) @ CHR ''_'' # natToString now
      = (fileName d' @ ''_'' @ sessionId d') @ CHR ''_'' # natToString now'"
    by (simp add: generateSessionId_def)
  from suffix_after_last [OF natToString_no_underscore natToString_no_underscore this]
  show ?thesis by (rule natToString_inj)
qed

lemma natToString_last_digit: "last (natToString n) \<in> set ''0123456789''"
  using natToString_digits [of n] natToString_nonempty [of n] last_in_set by blast

lemma generateSessionId_not_prototype: "generateSessionId d now \<notin> set objectPrototypeNames"
proof
  assume m: "generateSessionId d now \<in> set objectPrototypeNames"
  have "last (generateSessionId d now) = last (natToString now)"
    using natToString_nonempty [of now] by (simp add: generateSessionId_def)
  with natToString_last_digit [of now]
  have "last (generateSessionId d now) \<in> set ''0123456789''" by simp
  moreover have "\<forall>name \<in> set objectPrototypeNames. last name \<notin> set ''0123456789''"
    by (simp add: objectPrototypeNames_def)
  ultimately show False using m by blast
qed

lemma natToString_17: "natToString 17 = ''17''"
  by (simp add: natToString_small natToString_large)

lemma natToString_423: "natToString 423 = ''423''"
  by (simp add: natToString_small natToString_large)

lemma natToString_401: "natToString 401 = ''401''"
  by (simp add: natToString_small natToString_large)

lemma handle_other_session:
  "handleStreamingUpdate sid data st = Inr st' \<Longrightarrow> other \<noteq> sid \<Longrightarrow>
   sessions st' other = sessions st other"
  by (auto simp: handleStreamingUpdate_def readSession_def split: option.splits sum.splits prod.splits)

lemma applyEvents_other_session:
  "applyEvents sid evs st = Inr st' \<Longrightarrow> other \<noteq> sid \<Longrightarrow>
   sessions st' other = sessions st other"
proof (induction evs arbitrary: st)
  case Nil
  then show ?case by simp
next
  case (Cons data evs)
  from Cons.prems(1) obtain st1 where h: "handleStreamingUpdate sid data st = Inr st1"
    and rest: "applyEvents sid evs st1 = Inr st'"
    by (auto split: sum.splits)
  from Cons.IH [OF rest Cons.prems(2)] handle_other_session [OF h Cons.prems(2)]
  show ?case by simp
qed

lemma setAnalysisError_other_session:
  "other \<noteq> sid \<Longrightarrow> sessions (setAnalysisError sid message st) other = sessions st other"
  by (simp add: setAnalysisError_def)

lemma readStream_other_session:
  assumes "readStream parse sid body st = Inr st'" and "other \<noteq> sid"
  shows "sessions st' other = sessions st other"
proof -
  from assms(1) obtain st1 where run: "applyEvents sid (decodeStream parse (fst body)) st = Inr st1"
    and st': "st' = (case snd body of
                       Done \<Rightarrow> st1
                     | ReadRejects name message \<Rightarrow>
                         if name \<noteq> ''AbortError'' then setAnalysisError sid message st1 else st1)
                    \<lparr>activeStreams := activeStreams
                        (case snd body of
                           Done \<Rightarrow> st1
                         | ReadRejects name message \<Rightarrow>
                             if name \<noteq> ''AbortError'' then setAnalysisError sid message st1 else st1)
                        - {sid}\<rparr>"
    by (auto simp: readStream_def Let_def split: sum.splits)
  from st' have "sessions st' other = sessions st1 other"
    using assms(2) by (auto simp: setAnalysisError_other_session split: streamEnd.splits)
  with applyEvents_other_session [OF run assms(2)] show ?thesis by simp
qed

lemma startAnalysis_other_session:
  assumes "startAnalysis parse d now stamp outcome st = Inr st'"
    and "other \<noteq> generateSessionId d now"
  shows "sessions st' other = sessions st other"
proof -
  let ?sid = "generateSessionId d now"
  let ?st1 = "createSession d now stamp st"
  have c: "sessions ?st1 other = sessions st other"
    using assms(2) by (simp add: createSession_def Let_def)
  show ?thesis
  proof (cases outcome)
    case (FetchRejects message)
    with assms c show ?thesis
      by (auto simp: startAnalysis_def Let_def setAnalysisError_other_session)
  next
    case (FetchResolves r)
    show ?thesis
    proof (cases "ok r")
      case False
      with FetchResolves assms c show ?thesis
        by (auto simp: startAnalysis_def Let_def setAnalysisError_other_session)
    next
      case True
      show ?thesis
      proof (cases "bodyStream r")
        case None
        with True FetchResolves assms c show ?thesis
          by (auto simp: startAnalysis_def Let_def setAnalysisError_other_session)
      next
        case (Some body)
        with True FetchResolves assms(1)
        have "readStream parse ?sid body (?st1\<lparr>activeStreams := insert ?sid (activeStreams ?st1)\<rparr>) = Inr st'"
          by (simp add: startAnalysis_def Let_def)
        from readStream_other_session [OF this assms(2)] c show ?thesis by simp
      qed
    qed
  qed
qed

lemma component_maps_status:
  assumes "\<not> c_isAnalyzing st" and "\<not> c_hasStarted st" and "\<not> analysisStartedRef st"
  shows "http_status r = 423 \<Longrightarrow>
           map_sum id c_error (startAnalysisC parse (Some d) (FetchResolves r) st) =
             Inr (JStr ''Analysis already in progress for this file. Please wait for it to complete.'')"
    and "http_status r = 401 \<Longrightarrow>
           map_sum id c_error (startAnalysisC parse (Some d) (FetchResolves r) st) =
             Inr (JStr ''Authentication failed. Your session may have expired. Please reconnect to your cloud environment.'')"
    and "http_status r = 403 \<Longrightarrow>
           map_sum id c_error (startAnalysisC parse (Some d) (FetchResolves r) st) =
             Inr (JStr ''Access forbidden. Please check your permissions and try again.'')"
  using assms by (simp_all add: startAnalysisC_def ok_def finallyC_def)

lemma provider_failure:
  "\<not> ok r \<Longrightarrow>
   sessionAfter (generateSessionId d now) (startAnalysis parse d now stamp (FetchResolves r) st) =
     Some ((newSession d (generateSessionId d now) stamp)
             \<lparr>error := JStr (failureMessage r), isAnalyzing := Some False\<rparr>)"
  by (simp add: startAnalysis_def sessionAfter_def setAnalysisError_def createSession_def Let_def)

lemma component_refuses_when_started:
  "c_isAnalyzing st \<or> c_hasStarted st \<or> analysisStartedRef st \<Longrightarrow>
   startAnalysisC parse props outcome st = Inr st"
  by (simp add: startAnalysisC_def)

section \<open>Properties of the reducer\<close>

text \<open>
  C1 (as amended). Along every sequence of events that the reducer applies without
  throwing, a detection status \<^verbatim>\<open>'complete'\<close> of a resource stays \<^verbatim>\<open>'complete'\<close> as long as
  every event of the sequence keeps it (\<^const>\<open>keepsDetection\<close>): it is not a
  \<^verbatim>\<open>resource_initialized\<close> for that resource whose \<^verbatim>\<open>detectionStatus\<close> is not \<^verbatim>\<open>'complete'\<close>,
  and not a \<^verbatim>\<open>resource_group_update\<close> whose batch has an entry for the resource from which
  the reducer derives \<^verbatim>\<open>'pending'\<close>, which is an entry whose \<^verbatim>\<open>status\<close> is not \<^verbatim>\<open>'completed'\<close>
  and whose \<^verbatim>\<open>drift_result\<close> is falsy or has neither a truthy \<^verbatim>\<open>drifts\<close> nor a \<^verbatim>\<open>has_drift\<close>
  (conjuncts 1 and 4). Likewise the report status, with the event's \<^verbatim>\<open>reportStatus\<close> and
  with an entry whose \<^verbatim>\<open>status\<close> is not \<^verbatim>\<open>'completed'\<close> and whose \<^verbatim>\<open>report\<close> is falsy
  (conjuncts 2 and 5). The stored detection (report) result of a resource is unchanged
  along the sequence as long as no event replaces the entry (\<^const>\<open>replacesEntry\<close>) or is
  a \<^verbatim>\<open>detection_complete\<close> (\<^verbatim>\<open>report_complete\<close>) for it (conjunct 3). Those events set the
  entry from the event: in a stored session a \<^verbatim>\<open>resource_initialized\<close> for the resource
  makes its entry the initial one (conjunct 6), a \<^verbatim>\<open>resource_group_update\<close> carrying it
  makes its entry the one derived from an entry of the batch for it (conjunct 7), and a
  \<^verbatim>\<open>detection_complete\<close> (\<^verbatim>\<open>report_complete\<close>) for a resource that has an entry sets its
  status to \<^verbatim>\<open>'complete'\<close> and its stored result to the event's \<^verbatim>\<open>results\<close>, keeping the
  other fields (conjuncts 8 and 9).
\<close>

theorem statuses_monotonic_amended:
  "(applyEvents sid evs st = Inr st' \<and> detectionComplete sid r st \<and> list_all (keepsDetection r) evs
      \<longrightarrow> detectionComplete sid r st')
   \<and> (applyEvents sid evs st = Inr st' \<and> reportComplete sid r st \<and> list_all (keepsReport r) evs
      \<longrightarrow> reportComplete sid r st')
   \<and> (\<forall>e. applyEvents sid evs st = Inr st' \<and> lookupResource sid r st = Some e
          \<and> list_all (\<lambda>data. \<not> replacesEntry r data) evs \<longrightarrow>
          (\<exists>e'. lookupResource sid r st' = Some e'
             \<and> (list_all (\<lambda>data. \<not> storesDetection r data) evs \<longrightarrow> detectionResults e' = detectionResults e)
             \<and> (list_all (\<lambda>data. \<not> storesReport r data) evs \<longrightarrow> reportResults e' = reportResults e)))
   \<and> (detectionStatus (groupEntry d) = JStr ''complete'' \<longleftrightarrow>
        (field d ''status'' = JStr ''completed''
         \<or> (truthy (field d ''drift_result'')
             \<and> (truthy (field (field d ''drift_result'') ''drifts'')
                 \<or> field (field d ''drift_result'') ''has_drift'' \<noteq> JUndefined))))
   \<and> (reportStatus (groupEntry d) = JStr ''complete'' \<longleftrightarrow>
        (field d ''status'' = JStr ''completed'' \<or> truthy (field d ''report'')))
   \<and> (handleStreamingUpdate sid data st = Inr stn \<and> sessions st sid \<noteq> None
        \<and> field data ''type'' = JStr ''resource_initialized'' \<and> eventKey data = r \<longrightarrow>
        lookupResource sid r stn =
          Some \<lparr>status = JStr ''initialized'',
                detectionStatus = orElse (field data ''detectionStatus'') (JStr ''pending''),
                reportStatus = orElse (field data ''reportStatus'') (JStr ''pending''),
                detectionResults = JUndefined, reportResults = JUndefined\<rparr>)
   \<and> (handleStreamingUpdate sid data st = Inr stn \<and> sessions st sid \<noteq> None
        \<and> field data ''type'' = JStr ''resource_group_update'' \<and> r \<in> fst ` set (batchEntries data) \<longrightarrow>
        (\<exists>entry. (r, entry) \<in> set (batchEntries data) \<and> lookupResource sid r stn = Some (groupEntry entry)))
   \<and> (\<forall>e. handleStreamingUpdate sid data st = Inr stn \<and> lookupResource sid r st = Some e
          \<and> field data ''type'' = JStr ''detection_complete'' \<and> eventKey data = r \<longrightarrow>
          lookupResource sid r stn =
            Some (e\<lparr>detectionStatus := JStr ''complete'', detectionResults := field data ''results''\<rparr>))
   \<and> (\<forall>e. handleStreamingUpdate sid data st = Inr stn \<and> lookupResource sid r st = Some e
          \<and> field data ''type'' = JStr ''report_complete'' \<and> eventKey data = r \<longrightarrow>
          lookupResource sid r stn =
            Some (e\<lparr>reportStatus := JStr ''complete'', reportResults := field data ''results''\<rparr>))"
proof -
  have c1: "applyEvents sid evs st = Inr st' \<and> detectionComplete sid r st \<and> list_all (keepsDetection r) evs
      \<longrightarrow> detectionComplete sid r st'"
    using trace_keeps_detection by blast
  have c2: "applyEvents sid evs st = Inr st' \<and> reportComplete sid r st \<and> list_all (keepsReport r) evs
      \<longrightarrow> reportComplete sid r st'"
    using trace_keeps_report by blast
  have c3: "\<forall>e. applyEvents sid evs st = Inr st' \<and> lookupResource sid r st = Some e
          \<and> list_all (\<lambda>data. \<not> replacesEntry r data) evs \<longrightarrow>
          (\<exists>e'. lookupResource sid r st' = Some e'
             \<and> (list_all (\<lambda>data. \<not> storesDetection r data) evs \<longrightarrow> detectionResults e' = detectionResults e)
             \<and> (list_all (\<lambda>data. \<not> storesReport r data) evs \<longrightarrow> reportResults e' = reportResults e))"
    using trace_keeps_results [of sid evs st st' r] by blast
  have c4: "detectionStatus (groupEntry d) = JStr ''complete'' \<longleftrightarrow>
        (field d ''status'' = JStr ''completed''
         \<or> (truthy (field d ''drift_result'')
             \<and> (truthy (field (field d ''drift_result'') ''drifts'')
                 \<or> field (field d ''drift_result'') ''has_drift'' \<noteq> JUndefined)))"
    by (simp add: groupEntry_def Let_def)
  have c5: "reportStatus (groupEntry d) = JStr ''complete'' \<longleftrightarrow>
        (field d ''status'' = JStr ''completed'' \<or> truthy (field d ''report''))"
    by (simp add: groupEntry_def Let_def)
  have c6: "handleStreamingUpdate sid data st = Inr stn \<and> sessions st sid \<noteq> None
        \<and> field data ''type'' = JStr ''resource_initialized'' \<and> eventKey data = r \<longrightarrow>
        lookupResource sid r stn =
          Some \<lparr>status = JStr ''initialized'',
                detectionStatus = orElse (field data ''detectionStatus'') (JStr ''pending''),
                reportStatus = orElse (field data ''reportStatus'') (JStr ''pending''),
                detectionResults = JUndefined, reportResults = JUndefined\<rparr>"
    by (auto simp: handle_resource_initialized lookupResource_def)
  have c7: "handleStreamingUpdate sid data st = Inr stn \<and> sessions st sid \<noteq> None
        \<and> field data ''type'' = JStr ''resource_group_update'' \<and> r \<in> fst ` set (batchEntries data) \<longrightarrow>
        (\<exists>entry. (r, entry) \<in> set (batchEntries data) \<and> lookupResource sid r stn = Some (groupEntry entry))"
  proof (intro impI, elim conjE)
    assume h: "handleStreamingUpdate sid data st = Inr stn" and s: "sessions st sid \<noteq> None"
      and ty: "field data ''type'' = JStr ''resource_group_update''"
      and m: "r \<in> fst ` set (batchEntries data)"
    from s obtain s0 where s0: "sessions st sid = Some s0" by blast
    from m have t: "truthy (field data ''data'') \<and> truthy (field (field data ''data'') ''resources'')"
      by (auto simp: batchEntries_def split: if_splits)
    with h s0 ty obtain results updated where
      g: "groupUpdate (batchEntries data) (spreadResults (resourceResults s0)) = Inr updated"
      and stn: "lookupResource sid r stn = updated r"
      by (auto simp: handle_group_update lookupResource_def split: option.splits sum.splits)
    from groupUpdate_carried [OF g m] stn
    show "\<exists>entry. (r, entry) \<in> set (batchEntries data) \<and> lookupResource sid r stn = Some (groupEntry entry)"
      by auto
  qed
  have c8: "\<forall>e. handleStreamingUpdate sid data st = Inr stn \<and> lookupResource sid r st = Some e
          \<and> field data ''type'' = JStr ''detection_complete'' \<and> eventKey data = r \<longrightarrow>
          lookupResource sid r stn =
            Some (e\<lparr>detectionStatus := JStr ''complete'', detectionResults := field data ''results''\<rparr>)"
    by (auto simp: handle_detection_complete lookupResource_def split: option.splits)
  have c9: "\<forall>e. handleStreamingUpdate sid data st = Inr stn \<and> lookupResource sid r st = Some e
          \<and> field data ''type'' = JStr ''report_complete'' \<and> eventKey data = r \<longrightarrow>
          lookupResource sid r stn =
            Some (e\<lparr>reportStatus := JStr ''complete'', reportResults := field data ''results''\<rparr>)"
    by (auto simp: handle_report_complete lookupResource_def split: option.splits)
  from c1 c2 c3 c4 c5 c6 c7 c8 c9 show ?thesis by (intro conjI)
qed

theorem statuses_monotonic_amended_witness:
  "detectionComplete ''plan.tfstate_s1_17'' ''ec2'' completedStore
   \<and> reportComplete ''plan.tfstate_s1_17'' ''ec2'' completedStore
   \<and> list_all (keepsDetection ''ec2'') otherResourceTrace
   \<and> list_all (keepsReport ''ec2'') otherResourceTrace
   \<and> list_all (\<lambda>data. \<not> replacesEntry ''ec2'' data) otherResourceTrace
   \<and> list_all (\<lambda>data. \<not> storesDetection ''ec2'' data) otherResourceTrace
   \<and> list_all (\<lambda>data. \<not> storesReport ''ec2'' data) otherResourceTrace
   \<and> (\<exists>st'. applyEvents ''plan.tfstate_s1_17'' otherResourceTrace completedStore = Inr st'
          \<and> detectionComplete ''plan.tfstate_s1_17'' ''ec2'' st'
          \<and> reportComplete ''plan.tfstate_s1_17'' ''ec2'' st'
          \<and> map_option detectionResults (lookupResource ''plan.tfstate_s1_17'' ''ec2'' st') = Some twoDrifts
          \<and> map_option reportResults (lookupResource ''plan.tfstate_s1_17'' ''ec2'' st')
              = Some (JStr ''two tags differ''))
   \<and> detectionStatus (groupEntry countOnlyEntry) = JStr ''pending''
   \<and> sessions completedStore ''plan.tfstate_s1_17'' \<noteq> None
   \<and> (\<exists>st1. handleStreamingUpdate ''plan.tfstate_s1_17'' lateInitEvent completedStore = Inr st1
          \<and> lookupResource ''plan.tfstate_s1_17'' ''ec2'' st1 =
              Some \<lparr>status = JStr ''initialized'', detectionStatus = JStr ''pending'',
                    reportStatus = JStr ''pending'', detectionResults = JUndefined,
                    reportResults = JUndefined\<rparr>)
   \<and> ''ec2'' \<in> fst ` set (batchEntries processingUpdateEvent)
   \<and> (\<exists>st1. handleStreamingUpdate ''plan.tfstate_s1_17'' processingUpdateEvent completedStore = Inr st1
          \<and> lookupResource ''plan.tfstate_s1_17'' ''ec2'' st1
              = Some (groupEntry (JObj [(''status'', JStr ''processing'')])))
   \<and> (\<exists>st1. handleStreamingUpdate ''plan.tfstate_s1_17'' detectionCompleteEvent completedStore = Inr st1
          \<and> lookupResource ''plan.tfstate_s1_17'' ''ec2'' st1 =
              Some \<lparr>status = JStr ''completed'', detectionStatus = JStr ''complete'',
                    reportStatus = JStr ''complete'', detectionResults = twoDrifts,
                    reportResults = JStr ''two tags differ''\<rparr>)
   \<and> (\<exists>st1. handleStreamingUpdate ''plan.tfstate_s1_17'' reportCompleteEvent completedStore = Inr st1
          \<and> lookupResource ''plan.tfstate_s1_17'' ''ec2'' st1 =
              Some \<lparr>status = JStr ''completed'', detectionStatus = JStr ''complete'',
                    reportStatus = JStr ''complete'', detectionResults = twoDrifts,
                    reportResults = JStr ''one tag differs''\<rparr>)"
proof -
  let ?sid = "''plan.tfstate_s1_17''"
  let ?e = "\<lparr>status = JStr ''completed'', detectionStatus = JStr ''complete'',
                    reportStatus = JStr ''complete'', detectionResults = twoDrifts,
                    reportResults = JStr ''two tags differ''\<rparr>"
  have d: "detectionComplete ?sid ''ec2'' completedStore"
    and r: "reportComplete ?sid ''ec2'' completedStore"
    and e: "lookupResource ?sid ''ec2'' completedStore = Some ?e"
    and s: "sessions completedStore ?sid \<noteq> None"
    by (simp_all add: completedStore_def detectionComplete_def reportComplete_def lookupResource_def
          newSession_def)
  have kd: "list_all (keepsDetection ''ec2'') otherResourceTrace"
    by (simp add: otherResourceTrace_def keepsDetection_def eventKey_def batchEntries_def)
  have kr: "list_all (keepsReport ''ec2'') otherResourceTrace"
    by (simp add: otherResourceTrace_def keepsReport_def eventKey_def batchEntries_def)
  have nr: "list_all (\<lambda>data. \<not> replacesEntry ''ec2'' data) otherResourceTrace"
    by (simp add: otherResourceTrace_def replacesEntry_def eventKey_def batchEntries_def)
  have nd: "list_all (\<lambda>data. \<not> storesDetection ''ec2'' data) otherResourceTrace"
    by (simp add: otherResourceTrace_def storesDetection_def eventKey_def)
  have np: "list_all (\<lambda>data. \<not> storesReport ''ec2'' data) otherResourceTrace"
    by (simp add: otherResourceTrace_def storesReport_def eventKey_def)
  have "\<exists>st'. applyEvents ?sid otherResourceTrace completedStore = Inr st'"
    by (simp add: completedStore_def otherResourceTrace_def newSession_def handler_defs)
  then obtain st' where run: "applyEvents ?sid otherResourceTrace completedStore = Inr st'"
    by blast
  have trace: "\<exists>st'. applyEvents ?sid otherResourceTrace completedStore = Inr st'
          \<and> detectionComplete ?sid ''ec2'' st' \<and> reportComplete ?sid ''ec2'' st'
          \<and> map_option detectionResults (lookupResource ?sid ''ec2'' st') = Some twoDrifts
          \<and> map_option reportResults (lookupResource ?sid ''ec2'' st') = Some (JStr ''two tags differ'')"
    using statuses_monotonic_amended
            [where sid = ?sid and evs = otherResourceTrace and st = completedStore and st' = st'
               and r = "''ec2''" and d = JNull and data = JNull and stn = completedStore]
      d r e kd kr nr nd np run
    by auto
  have pend: "detectionStatus (groupEntry countOnlyEntry) = JStr ''pending''"
    using statuses_monotonic_amended
            [where sid = ?sid and evs = "[]" and st = completedStore and st' = completedStore
               and r = "''ec2''" and d = countOnlyEntry and data = JNull and stn = completedStore]
    by (simp add: countOnlyEntry_def groupEntry_def)
  have ti: "field lateInitEvent ''type'' = JStr ''resource_initialized''"
    and ki: "eventKey lateInitEvent = ''ec2''"
    and oi: "orElse (field lateInitEvent ''detectionStatus'') (JStr ''pending'') = JStr ''pending''"
      "orElse (field lateInitEvent ''reportStatus'') (JStr ''pending'') = JStr ''pending''"
    by (simp_all add: lateInitEvent_def eventKey_def orElse_def)
  have "\<exists>st1. handleStreamingUpdate ?sid lateInitEvent completedStore = Inr st1"
    by (simp add: completedStore_def lateInitEvent_def handler_defs)
  then obtain sti where hi: "handleStreamingUpdate ?sid lateInitEvent completedStore = Inr sti"
    by blast
  have init: "\<exists>st1. handleStreamingUpdate ?sid lateInitEvent completedStore = Inr st1
          \<and> lookupResource ?sid ''ec2'' st1 =
              Some \<lparr>status = JStr ''initialized'', detectionStatus = JStr ''pending'',
                    reportStatus = JStr ''pending'', detectionResults = JUndefined,
                    reportResults = JUndefined\<rparr>"
    using statuses_monotonic_amended
            [where sid = ?sid and evs = "[]" and st = completedStore and st' = completedStore
               and r = "''ec2''" and d = JNull and data = lateInitEvent and stn = sti]
      hi s ti ki oi
    by auto
  have tg: "field processingUpdateEvent ''type'' = JStr ''resource_group_update''"
    and bg: "batchEntries processingUpdateEvent = [(''ec2'', JObj [(''status'', JStr ''processing'')])]"
    by (simp_all add: processingUpdateEvent_def batchEntries_def)
  then have mg: "''ec2'' \<in> fst ` set (batchEntries processingUpdateEvent)" by simp
  have "\<exists>st1. handleStreamingUpdate ?sid processingUpdateEvent completedStore = Inr st1"
    by (simp add: completedStore_def processingUpdateEvent_def newSession_def handler_defs)
  then obtain stg where hg: "handleStreamingUpdate ?sid processingUpdateEvent completedStore = Inr stg"
    by blast
  have grp: "\<exists>st1. handleStreamingUpdate ?sid processingUpdateEvent completedStore = Inr st1
          \<and> lookupResource ?sid ''ec2'' st1
              = Some (groupEntry (JObj [(''status'', JStr ''processing'')]))"
    using statuses_monotonic_amended
            [where sid = ?sid and evs = "[]" and st = completedStore and st' = completedStore
               and r = "''ec2''" and d = JNull and data = processingUpdateEvent and stn = stg]
      hg s tg mg bg
    by auto
  have td: "field detectionCompleteEvent ''type'' = JStr ''detection_complete''"
    and kdc: "eventKey detectionCompleteEvent = ''ec2''"
    and pd: "field detectionCompleteEvent ''results'' = twoDrifts"
    by (simp_all add: detectionCompleteEvent_def eventKey_def)
  have "\<exists>st1. handleStreamingUpdate ?sid detectionCompleteEvent completedStore = Inr st1"
    by (simp add: completedStore_def detectionCompleteEvent_def newSession_def handler_defs)
  then obtain std where hd: "handleStreamingUpdate ?sid detectionCompleteEvent completedStore = Inr std"
    by blast
  have det: "\<exists>st1. handleStreamingUpdate ?sid detectionCompleteEvent completedStore = Inr st1
          \<and> lookupResource ?sid ''ec2'' st1 = Some ?e"
    using statuses_monotonic_amended
            [where sid = ?sid and evs = "[]" and st = completedStore and st' = completedStore
               and r = "''ec2''" and d = JNull and data = detectionCompleteEvent and stn = std]
      hd e td kdc pd
    by auto
  have tr: "field reportCompleteEvent ''type'' = JStr ''report_complete''"
    and krc: "eventKey reportCompleteEvent = ''ec2''"
    and pr: "field reportCompleteEvent ''results'' = JStr ''one tag differs''"
    by (simp_all add: reportCompleteEvent_def eventKey_def)
  have "\<exists>st1. handleStreamingUpdate ?sid reportCompleteEvent completedStore = Inr st1"
    by (simp add: completedStore_def reportCompleteEvent_def newSession_def handler_defs)
  then obtain strc where hr: "handleStreamingUpdate ?sid reportCompleteEvent completedStore = Inr strc"
    by blast
  have rep: "\<exists>st1. handleStreamingUpdate ?sid reportCompleteEvent completedStore = Inr st1
          \<and> lookupResource ?sid ''ec2'' st1 =
              Some \<lparr>status = JStr ''completed'', detectionStatus = JStr ''complete'',
                    reportStatus = JStr ''complete'', detectionResults = twoDrifts,
                    reportResults = JStr ''one tag differs''\<rparr>"
    using statuses_monotonic_amended
            [where sid = ?sid and evs = "[]" and st = completedStore and st' = completedStore
               and r = "''ec2''" and d = JNull and data = reportCompleteEvent and stn = strc]
      hr e tr krc pr
    by auto
  from d r kd kr nr nd np trace pend s init mg grp det rep show ?thesis
    by (intro conjI)
qed

text \<open>
  C1 as stated fails. In a fresh session, a \<^verbatim>\<open>detection_complete\<close> for \<^verbatim>\<open>ec2\<close> makes its
  detection status \<^verbatim>\<open>'complete'\<close> and stores the result. A late \<^verbatim>\<open>resource_initialized\<close> for
  \<^verbatim>\<open>ec2\<close> then sets the status to \<^verbatim>\<open>'pending'\<close> and drops the result; and so does, instead
  of it, a \<^verbatim>\<open>resource_group_update\<close> that carries \<^verbatim>\<open>ec2\<close> as \<^verbatim>\<open>processing\<close>.
\<close>

theorem statuses_monotonic_counterexample:
  "map_option detectionStatus
        (resourceAfter ''plan.tfstate_s1_17'' ''ec2''
          (applyEvents ''plan.tfstate_s1_17'' [detectionCompleteEvent] sampleStore))
      = Some (JStr ''complete'')
   \<and> map_option detectionResults
        (resourceAfter ''plan.tfstate_s1_17'' ''ec2''
          (applyEvents ''plan.tfstate_s1_17'' [detectionCompleteEvent] sampleStore))
      = Some twoDrifts
   \<and> map_option detectionStatus
        (resourceAfter ''plan.tfstate_s1_17'' ''ec2''
          (applyEvents ''plan.tfstate_s1_17'' [detectionCompleteEvent, lateInitEvent] sampleStore))
      = Some (JStr ''pending'')
   \<and> map_option detectionResults
        (resourceAfter ''plan.tfstate_s1_17'' ''ec2''
          (applyEvents ''plan.tfstate_s1_17'' [detectionCompleteEvent, lateInitEvent] sampleStore))
      = Some JUndefined
   \<and> map_option detectionStatus
        (resourceAfter ''plan.tfstate_s1_17'' ''ec2''
          (applyEvents ''plan.tfstate_s1_17'' [detectionCompleteEvent, processingUpdateEvent] sampleStore))
      = Some (JStr ''pending'')
   \<and> map_option detectionResults
        (resourceAfter ''plan.tfstate_s1_17'' ''ec2''
          (applyEvents ''plan.tfstate_s1_17'' [detectionCompleteEvent, processingUpdateEvent] sampleStore))
      = Some JUndefined"
  by (simp add: sampleStore_def detectionCompleteEvent_def lateInitEvent_def processingUpdateEvent_def
        newSession_def noAnalysisState_def handler_defs lookupResource_def resourceAfter_def)

text \<open>
  C9. An event for a session id that the store does not hold is a no-op: the updater
  returns the previous state as it is (all sessions, the current session and the stream
  handles), and it does not throw, whatever the decoded value is. The ids are those the
  handler is called with, the ones \<^verbatim>\<open>generateSessionId\<close> makes: \<^verbatim>\<open>handleStreamingUpdate\<close> is
  local to the provider and its one call passes the id \<^verbatim>\<open>startAnalysis\<close> has generated.
  Such an id ends in the digits of the instant, so it names no member of
  \<^verbatim>\<open>Object.prototype\<close>, which \<^verbatim>\<open>prev[sessionId]\<close> would find in place of a session.
\<close>

theorem unknown_session_noop:
  "sessions st (generateSessionId d now) = None \<Longrightarrow>
   handleStreamingUpdate (generateSessionId d now) data st = Inr st"
  using generateSessionId_not_prototype [of d now] by (simp add: handle_unstored)

theorem unknown_session_noop_witness:
  "generateSessionId sampleData 17 = ''plan.tfstate_s1_17''
   \<and> sessions emptyStore (generateSessionId sampleData 17) = None
   \<and> handleStreamingUpdate (generateSessionId sampleData 17) errorEvent emptyStore = Inr emptyStore
   \<and> handleStreamingUpdate (generateSessionId sampleData 17) JNull emptyStore = Inr emptyStore"
proof -
  have g: "generateSessionId sampleData 17 = ''plan.tfstate_s1_17''"
    by (simp add: generateSessionId_def sampleData_def natToString_17)
  have n: "sessions emptyStore (generateSessionId sampleData 17) = None"
    by (simp add: emptyStore_def)
  from unknown_session_noop [OF n, of errorEvent] unknown_session_noop [OF n, of JNull] g n
  show ?thesis by simp
qed

text \<open>
  C10. An \<^verbatim>\<open>error\<close> event for a session the store holds gives that session the event's
  \<^verbatim>\<open>error\<close> and \<^verbatim>\<open>isAnalyzing = false\<close> and nothing else: its \<^verbatim>\<open>analysisResults\<close>, its
  \<^verbatim>\<open>resourceResults\<close> and every other field are those it had, and every other session is
  the one it was. (The session's stream handle is released as well.)
\<close>

theorem error_event_frame:
  assumes "sessions st sid = Some s" and "field data ''type'' = JStr ''error''"
  shows "handleStreamingUpdate sid data st =
           Inr (st\<lparr>sessions := (sessions st)(sid \<mapsto> s\<lparr>error := field data ''error'', isAnalyzing := Some False\<rparr>),
                   activeStreams := activeStreams st - {sid}\<rparr>)
         \<and> analysisResults (s\<lparr>error := field data ''error'', isAnalyzing := Some False\<rparr>) = analysisResults s
         \<and> resourceResults (s\<lparr>error := field data ''error'', isAnalyzing := Some False\<rparr>) = resourceResults s
         \<and> (\<forall>other. other \<noteq> sid \<longrightarrow>
               ((sessions st)(sid \<mapsto> s\<lparr>error := field data ''error'', isAnalyzing := Some False\<rparr>)) other
                 = sessions st other)"
  using assms by (simp add: handle_error)

theorem error_event_frame_witness:
  "sessions completedStore ''plan.tfstate_s1_17'' =
     Some ((newSession sampleData ''plan.tfstate_s1_17'' 17)\<lparr>resourceResults := Some [''ec2'' \<mapsto>
           \<lparr>status = JStr ''completed'', detectionStatus = JStr ''complete'',
            reportStatus = JStr ''complete'', detectionResults = twoDrifts,
            reportResults = JStr ''two tags differ''\<rparr>]\<rparr>)
   \<and> field errorEvent ''type'' = JStr ''error''
   \<and> handleStreamingUpdate ''plan.tfstate_s1_17'' errorEvent completedStore =
       Inr (completedStore\<lparr>sessions := (sessions completedStore)(''plan.tfstate_s1_17'' \<mapsto>
              (newSession sampleData ''plan.tfstate_s1_17'' 17)
                \<lparr>resourceResults := Some [''ec2'' \<mapsto>
                   \<lparr>status = JStr ''completed'', detectionStatus = JStr ''complete'',
                    reportStatus = JStr ''complete'', detectionResults = twoDrifts,
                    reportResults = JStr ''two tags differ''\<rparr>],
                 error := JStr ''backend failed'', isAnalyzing := Some False\<rparr>),
            activeStreams := {}\<rparr>)"
proof -
  have s: "sessions completedStore ''plan.tfstate_s1_17'' =
     Some ((newSession sampleData ''plan.tfstate_s1_17'' 17)\<lparr>resourceResults := Some [''ec2'' \<mapsto>
           \<lparr>status = JStr ''completed'', detectionStatus = JStr ''complete'',
            reportStatus = JStr ''complete'', detectionResults = twoDrifts,
            reportResults = JStr ''two tags differ''\<rparr>]\<rparr>)"
    by (simp add: completedStore_def)
  have t: "field errorEvent ''type'' = JStr ''error''"
    by (simp add: errorEvent_def)
  have a: "activeStreams completedStore - {''plan.tfstate_s1_17''} = {}"
    by (simp add: completedStore_def)
  have f: "field errorEvent ''error'' = JStr ''backend failed''"
    by (simp add: errorEvent_def)
  from error_event_frame [OF s t] s t a f show ?thesis by simp
qed

text \<open>
  C8. A \<^verbatim>\<open>detection_complete\<close> for a resource that has no entry in the session's
  \<^verbatim>\<open>resourceResults\<close> (no \<^verbatim>\<open>resource_initialized\<close> announced it) does not throw and is not
  dropped: it creates the entry, with \<^verbatim>\<open>detectionStatus = 'complete'\<close>, the payload as
  \<^verbatim>\<open>detectionResults\<close> and no other property.
\<close>

theorem detection_complete_creates:
  assumes "sessions st sid = Some s" and "resourceResults s = Some rr"
    and "field data ''type'' = JStr ''detection_complete''"
    and "rr (toStr (field data ''resource'')) = None"
  shows "handleStreamingUpdate sid data st =
           Inr (st\<lparr>sessions := (sessions st)(sid \<mapsto> s\<lparr>resourceResults :=
                  Some (rr(toStr (field data ''resource'') \<mapsto>
                    \<lparr>status = JUndefined, detectionStatus = JStr ''complete'', reportStatus = JUndefined,
                     detectionResults = field data ''results'', reportResults = JUndefined\<rparr>))\<rparr>)\<rparr>)"
  using assms
  by (simp add: handle_detection_complete eventKey_def spreadResult_def noResourceResult_def)

theorem detection_complete_creates_witness:
  "sessions sampleStore ''plan.tfstate_s1_17'' = Some (newSession sampleData ''plan.tfstate_s1_17'' 17)
   \<and> resourceResults (newSession sampleData ''plan.tfstate_s1_17'' 17) = Some Map.empty
   \<and> field detectionCompleteEvent ''type'' = JStr ''detection_complete''
   \<and> Map.empty (toStr (field detectionCompleteEvent ''resource'')) = (None :: resourceResult option)
   \<and> resourceAfter ''plan.tfstate_s1_17'' ''ec2''
        (handleStreamingUpdate ''plan.tfstate_s1_17'' detectionCompleteEvent sampleStore) =
       Some \<lparr>status = JUndefined, detectionStatus = JStr ''complete'', reportStatus = JUndefined,
             detectionResults = twoDrifts, reportResults = JUndefined\<rparr>"
proof -
  have s: "sessions sampleStore ''plan.tfstate_s1_17'' = Some (newSession sampleData ''plan.tfstate_s1_17'' 17)"
    by (simp add: sampleStore_def)
  have rr: "resourceResults (newSession sampleData ''plan.tfstate_s1_17'' 17) = Some Map.empty"
    by (simp add: newSession_def)
  have t: "field detectionCompleteEvent ''type'' = JStr ''detection_complete''"
    by (simp add: detectionCompleteEvent_def)
  have k: "toStr (field detectionCompleteEvent ''resource'') = ''ec2''"
    and p: "field detectionCompleteEvent ''results'' = twoDrifts"
    by (simp_all add: detectionCompleteEvent_def)
  have n: "Map.empty (toStr (field detectionCompleteEvent ''resource'')) = (None :: resourceResult option)"
    by simp
  from detection_complete_creates [OF s rr t n] s rr t k p show ?thesis
    by (simp add: resourceAfter_def lookupResource_def)
qed

text \<open>
  C5. Replaying a \<^verbatim>\<open>detection_complete\<close>: applying the same event twice gives the state
  that applying it once gives (and throws exactly when applying it once throws).
\<close>

theorem detection_complete_idempotent:
  assumes "field data ''type'' = JStr ''detection_complete''"
  shows "applyEvents sid [data, data] st = applyEvents sid [data] st"
proof (cases "sessions st sid")
  case None
  show ?thesis
  proof (cases "sid \<in> set objectPrototypeNames")
    case True
    with None assms show ?thesis by (simp add: handle_prototype_detection)
  next
    case False
    with None show ?thesis by (simp add: handle_unstored)
  qed
next
  case (Some s)
  show ?thesis
  proof (cases "resourceResults s")
    case None
    with Some assms show ?thesis by (simp add: handle_detection_complete)
  next
    case (Some rr)
    let ?s1 = "s\<lparr>resourceResults :=
                 Some (rr(eventKey data \<mapsto> (spreadResult (rr (eventKey data)))
                   \<lparr>detectionStatus := JStr ''complete'', detectionResults := field data ''results''\<rparr>))\<rparr>"
    let ?st1 = "st\<lparr>sessions := (sessions st)(sid \<mapsto> ?s1)\<rparr>"
    have one: "handleStreamingUpdate sid data st = Inr ?st1"
      using \<open>sessions st sid = Some s\<close> Some assms by (simp add: handle_detection_complete)
    have s1: "sessions ?st1 sid = Some ?s1" by simp
    have two: "handleStreamingUpdate sid data ?st1 = Inr ?st1"
      by (simp add: handle_detection_complete [OF s1 assms])
    from one two show ?thesis by simp
  qed
qed

theorem detection_complete_idempotent_witness:
  "field detectionCompleteEvent ''type'' = JStr ''detection_complete''
   \<and> applyEvents ''plan.tfstate_s1_17'' [detectionCompleteEvent, detectionCompleteEvent] sampleStore
       = applyEvents ''plan.tfstate_s1_17'' [detectionCompleteEvent] sampleStore
   \<and> resourceAfter ''plan.tfstate_s1_17'' ''ec2''
       (applyEvents ''plan.tfstate_s1_17'' [detectionCompleteEvent, detectionCompleteEvent] sampleStore) =
       Some \<lparr>status = JUndefined, detectionStatus = JStr ''complete'', reportStatus = JUndefined,
             detectionResults = twoDrifts, reportResults = JUndefined\<rparr>"
proof -
  have t: "field detectionCompleteEvent ''type'' = JStr ''detection_complete''"
    by (simp add: detectionCompleteEvent_def)
  have once: "resourceAfter ''plan.tfstate_s1_17'' ''ec2''
       (applyEvents ''plan.tfstate_s1_17'' [detectionCompleteEvent] sampleStore) =
       Some \<lparr>status = JUndefined, detectionStatus = JStr ''complete'', reportStatus = JUndefined,
             detectionResults = twoDrifts, reportResults = JUndefined\<rparr>"
    by (simp add: sampleStore_def detectionCompleteEvent_def newSession_def handler_defs
          lookupResource_def resourceAfter_def)
  from detection_complete_idempotent [OF t, of "''plan.tfstate_s1_17''" sampleStore] t once
  show ?thesis by simp
qed

section \<open>Cancellation\<close>

text \<open>
  C2 (as amended). \<^verbatim>\<open>stopAnalysis\<close> on a session the store holds releases the stream handle
  and sets \<^verbatim>\<open>isAnalyzing\<close> to false, leaving every other field of the session, its
  \<^verbatim>\<open>resourceResults\<close> among them, as it was. The update handler has no cancellation check:
  an event handed to it after \<^verbatim>\<open>stopAnalysis\<close> is applied as it would have been before, so
  that handling it after the stop gives the state that stopping after handling it gives.
\<close>

theorem stop_then_event_amended:
  assumes "sessions st sid = Some s"
  shows "sessions (stopAnalysis sid st) = (sessions st)(sid \<mapsto> s\<lparr>isAnalyzing := Some False\<rparr>)
       \<and> activeStreams (stopAnalysis sid st) = activeStreams st - {sid}
       \<and> lookupResource sid r (stopAnalysis sid st) = lookupResource sid r st
       \<and> handleStreamingUpdate sid data (stopAnalysis sid st) =
           map_sum id (stopAnalysis sid) (handleStreamingUpdate sid data st)"
  using assms stop_commutes [OF assms, of data]
  by (simp add: stopAnalysis_existing lookupResource_def)

theorem stop_then_event_amended_witness:
  "sessions sampleStore ''plan.tfstate_s1_17'' = Some (newSession sampleData ''plan.tfstate_s1_17'' 17)
   \<and> handleStreamingUpdate ''plan.tfstate_s1_17'' detectionCompleteEvent
        (stopAnalysis ''plan.tfstate_s1_17'' sampleStore) =
       map_sum id (stopAnalysis ''plan.tfstate_s1_17'')
        (handleStreamingUpdate ''plan.tfstate_s1_17'' detectionCompleteEvent sampleStore)
   \<and> activeStreams (stopAnalysis ''plan.tfstate_s1_17'' sampleStore) = {}"
proof -
  have s: "sessions sampleStore ''plan.tfstate_s1_17'' = Some (newSession sampleData ''plan.tfstate_s1_17'' 17)"
    by (simp add: sampleStore_def)
  have a: "activeStreams sampleStore - {''plan.tfstate_s1_17''} = {}"
    by (simp add: sampleStore_def)
  from stop_then_event_amended [OF s, of "''ec2''" detectionCompleteEvent] s a show ?thesis by simp
qed

text \<open>
  C2 as stated fails: after \<^verbatim>\<open>stopAnalysis\<close> the session has no entry for \<^verbatim>\<open>ec2\<close>; a late
  \<^verbatim>\<open>detection_complete\<close> handed to the handler creates it, so the state after the late
  event is not the state before it.
\<close>

theorem stop_then_event_counterexample:
  "lookupResource ''plan.tfstate_s1_17'' ''ec2'' (stopAnalysis ''plan.tfstate_s1_17'' sampleStore) = None
   \<and> resourceAfter ''plan.tfstate_s1_17'' ''ec2''
        (handleStreamingUpdate ''plan.tfstate_s1_17'' detectionCompleteEvent
          (stopAnalysis ''plan.tfstate_s1_17'' sampleStore)) =
       Some \<lparr>status = JUndefined, detectionStatus = JStr ''complete'', reportStatus = JUndefined,
             detectionResults = twoDrifts, reportResults = JUndefined\<rparr>
   \<and> handleStreamingUpdate ''plan.tfstate_s1_17'' detectionCompleteEvent
        (stopAnalysis ''plan.tfstate_s1_17'' sampleStore)
       \<noteq> Inr (stopAnalysis ''plan.tfstate_s1_17'' sampleStore)"
proof -
  let ?st = "stopAnalysis ''plan.tfstate_s1_17'' sampleStore"
  have before: "lookupResource ''plan.tfstate_s1_17'' ''ec2'' ?st = None"
    by (simp add: stopAnalysis_def sampleStore_def detectionCompleteEvent_def newSession_def
          handler_defs lookupResource_def resourceAfter_def)
  have after: "resourceAfter ''plan.tfstate_s1_17'' ''ec2''
        (handleStreamingUpdate ''plan.tfstate_s1_17'' detectionCompleteEvent ?st) =
       Some \<lparr>status = JUndefined, detectionStatus = JStr ''complete'', reportStatus = JUndefined,
             detectionResults = twoDrifts, reportResults = JUndefined\<rparr>"
    by (simp add: stopAnalysis_def sampleStore_def detectionCompleteEvent_def newSession_def
          handler_defs lookupResource_def resourceAfter_def)
  have "handleStreamingUpdate ''plan.tfstate_s1_17'' detectionCompleteEvent ?st \<noteq> Inr ?st"
  proof
    assume "handleStreamingUpdate ''plan.tfstate_s1_17'' detectionCompleteEvent ?st = Inr ?st"
    with after have "lookupResource ''plan.tfstate_s1_17'' ''ec2'' ?st \<noteq> None"
      by (simp add: resourceAfter_def)
    with before show False by simp
  qed
  with before after show ?thesis by blast
qed

section \<open>The decoder and chunk boundaries\<close>

text \<open>
  C3 (as amended). The read loop decodes every chunk on its own: it splits the chunk on
  \<^verbatim>\<open>'\n'\<close> and parses the lines of that chunk that start with \<^verbatim>\<open>'data: '\<close>; nothing is
  carried over to the next chunk. The records decoded are those of the whole concatenated
  stream whenever every chunk but the last ends where a line ends (it is empty or its last
  character is \<^verbatim>\<open>'\n'\<close>).
\<close>

theorem decoder_chunking_amended:
  "list_all lineAligned (butlast chunks) \<Longrightarrow>
   decodeStream parse chunks = decodeChunk parse (concat chunks)"
proof (induction chunks)
  case Nil
  show ?case by (simp add: decodeChunk_def framePayloads_empty map_filter_def)
next
  case (Cons c chunks)
  show ?case
  proof (cases "chunks = []")
    case True
    then show ?thesis by simp
  next
    case False
    with Cons.prems have c: "lineAligned c" and rest: "list_all lineAligned (butlast chunks)"
      by simp_all
    from Cons.IH [OF rest] decodeChunk_aligned [OF c] show ?thesis by simp
  qed
qed

theorem decoder_chunking_amended_witness:
  "list_all lineAligned (butlast [''data: '' @ completeText @ [CHR 0x0A], ''data: '' @ completeText @ [CHR 0x0A], '': ping''])
  \<and> decodeStream sampleParse [''data: '' @ completeText @ [CHR 0x0A], ''data: '' @ completeText @ [CHR 0x0A], '': ping'']
     = decodeChunk sampleParse (concat [''data: '' @ completeText @ [CHR 0x0A], ''data: '' @ completeText @ [CHR 0x0A], '': ping''])
  \<and> decodeStream sampleParse [''data: '' @ completeText @ [CHR 0x0A], ''data: '' @ completeText @ [CHR 0x0A], '': ping'']
     = [JObj [(''type'', JStr ''analysis_complete'')], JObj [(''type'', JStr ''analysis_complete'')]]"
proof -
  have a: "list_all lineAligned (butlast [''data: '' @ completeText @ [CHR 0x0A], ''data: '' @ completeText @ [CHR 0x0A], '': ping''])"
    by (simp add: lineAligned_def)
  have v: "decodeStream sampleParse [''data: '' @ completeText @ [CHR 0x0A], ''data: '' @ completeText @ [CHR 0x0A], '': ping'']
     = [JObj [(''type'', JStr ''analysis_complete'')], JObj [(''type'', JStr ''analysis_complete'')]]"
    by (simp add: completeText_def quoted_def framePayloads_def splitLines_def startsWith_def
        decodeChunk_def sampleParse_def map_filter_def)
  from decoder_chunking_amended [OF a, of sampleParse] a v show ?thesis by simp
qed

text \<open>
  C3 as stated fails: the stream \<^verbatim>\<open>data: {"type":"analysis_complete"}\<close> with its line break
  decodes to one record, and delivered in two chunks, cut after \<^verbatim>\<open>{"type":"analysis\<close>, it
  decodes to none: the first chunk's line does not parse and the second chunk's line does
  not start with \<^verbatim>\<open>'data: '\<close>.
\<close>

theorem decoder_chunking_counterexample:
  "concat [''data: '' @ take 17 completeText, drop 17 completeText @ [CHR 0x0A]]
     = ''data: '' @ completeText @ [CHR 0x0A]
   \<and> framePayloads (''data: '' @ completeText @ [CHR 0x0A]) = [completeText]
   \<and> decodeChunk sampleParse (''data: '' @ completeText @ [CHR 0x0A])
       = [JObj [(''type'', JStr ''analysis_complete'')]]
   \<and> framePayloads (''data: '' @ take 17 completeText) = [take 17 completeText]
   \<and> framePayloads (drop 17 completeText @ [CHR 0x0A]) = []
   \<and> decodeStream sampleParse [''data: '' @ take 17 completeText, drop 17 completeText @ [CHR 0x0A]] = []"
  by (simp add: completeText_def quoted_def framePayloads_def splitLines_def startsWith_def
        decodeChunk_def sampleParse_def map_filter_def)

section \<open>The projected drift count\<close>

text \<open>
  C4 (as amended). \<^verbatim>\<open>getDriftCount\<close> is zero for a resource with no entry or no (truthy)
  detection result; otherwise it is the \<^verbatim>\<open>drift_count\<close> property of the detection result
  whenever that property is there, and only when it is not there the number of entries of
  \<^verbatim>\<open>drifts\<close> if that is an array, and zero if it is not. So it is the number of drift
  entries stored in the detection result whenever that result has a \<^verbatim>\<open>drifts\<close> array and
  either no \<^verbatim>\<open>drift_count\<close> or one equal to the array's length.
\<close>

theorem drift_count_amended:
  "getDriftCount None = JNum 0
   \<and> (\<not> truthy (detectionResults r) \<longrightarrow> getDriftCount (Some r) = JNum 0)
   \<and> (truthy (detectionResults r) \<and> field (detectionResults r) ''drift_count'' \<noteq> JUndefined
        \<longrightarrow> getDriftCount (Some r) = field (detectionResults r) ''drift_count'')
   \<and> (truthy (detectionResults r) \<and> field (detectionResults r) ''drift_count'' = JUndefined
        \<and> field (detectionResults r) ''drifts'' = JArr xs
        \<longrightarrow> getDriftCount (Some r) = JNum (int (length xs)))
   \<and> (truthy (detectionResults r) \<and> field (detectionResults r) ''drift_count'' = JUndefined
        \<and> \<not> isArray (field (detectionResults r) ''drifts'')
        \<longrightarrow> getDriftCount (Some r) = JNum 0)
   \<and> (field (detectionResults r) ''drifts'' = JArr xs
        \<and> (field (detectionResults r) ''drift_count'' = JUndefined
            \<or> field (detectionResults r) ''drift_count'' = JNum (int (length xs)))
        \<longrightarrow> getDriftCount (Some r) = JNum (int (length xs)))"
proof -
  have "truthy (detectionResults r)" if "field (detectionResults r) ''drifts'' = JArr xs"
    using that field_defined_truthy [of "detectionResults r" "''drifts''"] by simp
  then show ?thesis by (auto simp: getDriftCount_def)
qed

theorem drift_count_amended_witness:
  "truthy twoDrifts \<and> field twoDrifts ''drift_count'' = JUndefined
   \<and> field twoDrifts ''drifts'' = JArr [JObj [(''kind'', JStr ''tag'')], JObj [(''kind'', JStr ''size'')]]
   \<and> getDriftCount (Some \<lparr>status = JStr ''completed'', detectionStatus = JStr ''complete'',
        reportStatus = JStr ''complete'', detectionResults = twoDrifts,
        reportResults = JStr ''two tags differ''\<rparr>) = JNum 2
   \<and> \<not> truthy (detectionResults noResourceResult)
   \<and> getDriftCount (Some noResourceResult) = JNum 0
   \<and> truthy (detectionResults miscountedResult)
   \<and> field (detectionResults miscountedResult) ''drift_count'' \<noteq> JUndefined
   \<and> getDriftCount (Some miscountedResult) = field (detectionResults miscountedResult) ''drift_count''
   \<and> truthy (detectionResults flagOnlyResult)
   \<and> field (detectionResults flagOnlyResult) ''drift_count'' = JUndefined
   \<and> \<not> isArray (field (detectionResults flagOnlyResult) ''drifts'')
   \<and> getDriftCount (Some flagOnlyResult) = JNum 0"
proof -
  let ?r = "\<lparr>status = JStr ''completed'', detectionStatus = JStr ''complete'',
        reportStatus = JStr ''complete'', detectionResults = twoDrifts,
        reportResults = JStr ''two tags differ''\<rparr>"
  have t: "truthy twoDrifts" and c: "field twoDrifts ''drift_count'' = JUndefined"
    and d: "field twoDrifts ''drifts'' = JArr [JObj [(''kind'', JStr ''tag'')], JObj [(''kind'', JStr ''size'')]]"
    by (simp_all add: twoDrifts_def)
  have n: "\<not> truthy (detectionResults noResourceResult)" by (simp add: noResourceResult_def)
  have m: "truthy (detectionResults miscountedResult)"
    "field (detectionResults miscountedResult) ''drift_count'' \<noteq> JUndefined"
    by (simp_all add: miscountedResult_def)
  have f: "truthy (detectionResults flagOnlyResult)"
    "field (detectionResults flagOnlyResult) ''drift_count'' = JUndefined"
    "\<not> isArray (field (detectionResults flagOnlyResult) ''drifts'')"
    by (simp_all add: flagOnlyResult_def)
  from drift_count_amended [of ?r "[JObj [(''kind'', JStr ''tag'')], JObj [(''kind'', JStr ''size'')]]"]
    drift_count_amended [of noResourceResult] drift_count_amended [of miscountedResult]
    drift_count_amended [of flagOnlyResult] t c d n m f
  show ?thesis by simp
qed

text \<open>
  C4 as stated fails: for a detection result with \<^verbatim>\<open>drift_count = 5\<close> and a \<^verbatim>\<open>drifts\<close> list of
  one entry, as a \<^verbatim>\<open>resource_group_update\<close> stores it, the projected count is 5 and not 1.
\<close>

theorem drift_count_counterexample:
  "field (detectionResults miscountedResult) ''drifts'' = JArr [JObj [(''kind'', JStr ''tag'')]]
   \<and> arrayLength (field (detectionResults miscountedResult) ''drifts'') = JNum 1
   \<and> getDriftCount (Some miscountedResult) = JNum 5
   \<and> resourceAfterC ''ec2'' (handleStreamingUpdateC miscountedUpdateEvent mountedComponent)
       = Some miscountedResult"
  by (simp add: miscountedResult_def miscountedUpdateEvent_def mountedComponent_def getDriftCount_def
        handleStreamingUpdateC_def resourceAfterC_def groupEntry_def orElse_def)

section \<open>Starting an analysis\<close>

text \<open>
  C6. A 423, a 401 or a 403 in answer to the initiating POST is to fail the analysis with
  a message of its own (an analysis is already in progress; the session has expired; access
  is forbidden), without a stream being read. The component's \<^verbatim>\<open>startAnalysis\<close> does this.
  The provider's \<^verbatim>\<open>startAnalysis\<close> has the generic branch only: a 423 whose body has neither
  \<^verbatim>\<open>details\<close> nor \<^verbatim>\<open>error\<close> leaves the session with \<^verbatim>\<open>Analysis failed with status 423\<close>, and
  a 401 whose body is not JSON with \<^verbatim>\<open>HTTP 401: Unauthorized\<close>.
\<close>

theorem provider_status_mapping_missing:
  "map_option error
     (sessionAfter ''plan.tfstate_s1_17''
        (startAnalysis sampleParse sampleData 17 17 (FetchResolves lockedResponse) emptyStore))
     = Some (JStr ''Analysis failed with status 423'')
   \<and> map_option error
     (sessionAfter ''plan.tfstate_s1_17''
        (startAnalysis sampleParse sampleData 17 17 (FetchResolves unauthorizedResponse) emptyStore))
     = Some (JStr ''HTTP 401: Unauthorized'')
   \<and> map_sum id c_error
       (startAnalysisC sampleParse (Some sampleData) (FetchResolves lockedResponse) mountedComponent)
     = Inr (JStr ''Analysis already in progress for this file. Please wait for it to complete.'')
   \<and> map_sum id c_error
       (startAnalysisC sampleParse (Some sampleData) (FetchResolves unauthorizedResponse) mountedComponent)
     = Inr (JStr ''Authentication failed. Your session may have expired. Please reconnect to your cloud environment.'')"
proof -
  have g: "generateSessionId sampleData 17 = ''plan.tfstate_s1_17''"
    by (simp add: generateSessionId_def sampleData_def natToString_17)
  have l: "\<not> ok lockedResponse" and u: "\<not> ok unauthorizedResponse"
    by (simp_all add: ok_def lockedResponse_def unauthorizedResponse_def)
  have ml: "failureMessage lockedResponse = ''Analysis failed with status 423''"
    by (simp add: failureMessage_def errorData_def lockedResponse_def orElse_def natToString_423)
  have mu: "failureMessage unauthorizedResponse = ''HTTP 401: Unauthorized''"
    by (simp add: failureMessage_def errorData_def unauthorizedResponse_def orElse_def natToString_401)
  have m: "\<not> c_isAnalyzing mountedComponent" "\<not> c_hasStarted mountedComponent"
    "\<not> analysisStartedRef mountedComponent"
    by (simp_all add: mountedComponent_def)
  have sl: "http_status lockedResponse = 423" and su: "http_status unauthorizedResponse = 401"
    by (simp_all add: lockedResponse_def unauthorizedResponse_def)
  from provider_failure [OF l, of sampleData 17 sampleParse 17 emptyStore]
    provider_failure [OF u, of sampleData 17 sampleParse 17 emptyStore]
    component_maps_status(1) [OF m sl, of sampleParse sampleData]
    component_maps_status(2) [OF m su, of sampleParse sampleData]
    g ml mu
  show ?thesis by simp
qed

text \<open>
  C7. A start for a request whose derived id is that of a session that is analyzing is to
  be refused: no session allocated, no second stream read. The provider's
  \<^verbatim>\<open>startAnalysis\<close> does not look for a session with the derived id. Called twice for the
  same request within one millisecond: when the first call has stored its session
  (analyzing, its POST under way), the second call derives the same id, stores a new
  session under it in place of the first one, and reads its own stream into that session.
\<close>

theorem duplicate_start_not_refused:
  "generateSessionId sampleData 17 = ''plan.tfstate_s1_17''
   \<and> sessions (createSession sampleData 17 17 emptyStore) ''plan.tfstate_s1_17''
       = Some (newSession sampleData ''plan.tfstate_s1_17'' 17)
   \<and> isAnalyzing (newSession sampleData ''plan.tfstate_s1_17'' 17) = Some True
   \<and> sessionAfter ''plan.tfstate_s1_17''
        (startAnalysis sampleParse sampleData 17 18 (FetchResolves streamingResponse)
          (createSession sampleData 17 17 emptyStore))
       = Some ((newSession sampleData ''plan.tfstate_s1_17'' 18)
                 \<lparr>analysisComplete := Some True, isAnalyzing := Some False\<rparr>)"
proof -
  have g: "generateSessionId sampleData 17 = ''plan.tfstate_s1_17''"
    by (simp add: generateSessionId_def sampleData_def natToString_17)
  have d: "decodeChunk sampleParse (''data: '' @ completeText @ [CHR 0x0A])
             = [JObj [(''type'', JStr ''analysis_complete'')]]"
    by (simp add: completeText_def quoted_def framePayloads_def splitLines_def startsWith_def
          decodeChunk_def sampleParse_def map_filter_def)
  have first: "sessions (createSession sampleData 17 17 emptyStore) ''plan.tfstate_s1_17''
       = Some (newSession sampleData ''plan.tfstate_s1_17'' 17)"
    by (simp add: createSession_def g Let_def)
  have run: "sessionAfter ''plan.tfstate_s1_17''
          (startAnalysis sampleParse sampleData 17 18 (FetchResolves streamingResponse)
            (createSession sampleData 17 17 emptyStore))
        = Some ((newSession sampleData ''plan.tfstate_s1_17'' 18)
                  \<lparr>analysisComplete := Some True, isAnalyzing := Some False\<rparr>)"
    by (simp add: startAnalysis_def g streamingResponse_def ok_def readStream_def d [simplified]
          createSession_def sessionAfter_def handleStreamingUpdate_def readSession_def getProp_def switchType_def
          Let_def)
  from g first run show ?thesis by (simp add: newSession_def)
qed

end
